theory Spec2Isabelle
  imports Main "HOL-Library.Word"
begin

section \<open>The discovery manager of the server (src/server/ua\_discovery.c)\<close>

text \<open>
  A shallow embedding of \<^verbatim>\<open>ua_discovery.c\<close>. The C functions mutate the server, its
  discovery manager and the caller's client configuration through pointers; here each
  function takes the server (which holds the one discovery manager) and returns the
  updated server. Calls into collaborators whose code is elsewhere (event loop, client,
  logger, multicast engine, the \<^verbatim>\<open>notifyState\<close> hook) are appended to the server's
  \<open>events\<close>, oldest first; what such a call returns is read from an \<open>env\<close> record.
\<close>

subsection \<open>Status codes and enumerations\<close>

type_synonym UA_StatusCode = "32 word"

text \<open>Modelled from the spec: the status codes that the file tests and returns are
  named there; the generated header \<^verbatim>\<open>statuscodes.h\<close> that gives them their values is
  not among the sources, and the values are those of the OPC UA status code table.\<close>

definition UA_STATUSCODE_GOOD :: UA_StatusCode where
  "UA_STATUSCODE_GOOD = 0x00000000"

definition UA_STATUSCODE_BADINTERNALERROR :: UA_StatusCode where
  "UA_STATUSCODE_BADINTERNALERROR = 0x80020000"

definition UA_STATUSCODE_BADOUTOFMEMORY :: UA_StatusCode where
  "UA_STATUSCODE_BADOUTOFMEMORY = 0x80030000"

definition UA_STATUSCODE_BADSERVICEUNSUPPORTED :: UA_StatusCode where
  "UA_STATUSCODE_BADSERVICEUNSUPPORTED = 0x800B0000"

definition UA_STATUSCODE_BADNOTIMPLEMENTED :: UA_StatusCode where
  "UA_STATUSCODE_BADNOTIMPLEMENTED = 0x80400000"

definition UA_STATUSCODE_BADCONNECTIONREJECTED :: UA_StatusCode where
  "UA_STATUSCODE_BADCONNECTIONREJECTED = 0x80AC0000"

definition UA_STATUSCODE_BADCONNECTIONCLOSED :: UA_StatusCode where
  "UA_STATUSCODE_BADCONNECTIONCLOSED = 0x80AE0000"

text \<open>Modelled from the spec: the four lifecycle states. The enumerations below are
  declared in headers that are not among the sources.\<close>

datatype UA_LifecycleState =
    UA_LIFECYCLESTATE_STOPPED
  | UA_LIFECYCLESTATE_STARTING
  | UA_LIFECYCLESTATE_STARTED
  | UA_LIFECYCLESTATE_STOPPING

text \<open>Of the secure channel states only \<open>CLOSED\<close> and \<open>OPEN\<close> are tested by this
  file; the handshake states between them are kept apart by their number.\<close>

datatype UA_SecureChannelState =
    UA_SECURECHANNELSTATE_CLOSED
  | UA_SECURECHANNELSTATE_HANDSHAKE nat
  | UA_SECURECHANNELSTATE_OPEN
  | UA_SECURECHANNELSTATE_CLOSING

type_synonym UA_SessionState = nat

datatype UA_MessageSecurityMode =
    UA_MESSAGESECURITYMODE_INVALID
  | UA_MESSAGESECURITYMODE_NONE
  | UA_MESSAGESECURITYMODE_SIGN
  | UA_MESSAGESECURITYMODE_SIGNANDENCRYPT

datatype UA_ApplicationType =
    UA_APPLICATIONTYPE_SERVER
  | UA_APPLICATIONTYPE_CLIENT
  | UA_APPLICATIONTYPE_CLIENTANDSERVER
  | UA_APPLICATIONTYPE_DISCOVERYSERVER

subsection \<open>Data\<close>

text \<open>A \<^verbatim>\<open>UA_String\<close> is a length and a byte array: a list of characters, the null
  string being the empty list. A pointer to an object that exists once (the server, the
  discovery manager, the server configuration) is a flag: set or \<^verbatim>\<open>NULL\<close>. A pointer
  to a client, a logger or an event loop is an optional address.\<close>

type_synonym UA_String = string
type_synonym UA_LocalizedText = "UA_String \<times> UA_String"
type_synonym UA_Client = nat
type_synonym UA_Logger = nat
type_synonym UA_EventLoop = nat
type_synonym UA_MdnsDiscoveryConfiguration = "UA_String \<times> UA_String list"

datatype callback_fn =
    CB_UA_DiscoveryManager_cleanupTimedOut
  | CB_asyncRegisterRequest_clear
  | CB_registerAsyncResponse
  | CB_register2AsyncResponse
  | CB_discoveryClientStateCallback

record UA_DelayedCallback =
  cb_callback :: "callback_fn option"
  cb_application :: bool
  cb_context :: "nat option"

record asyncRegisterRequest =
  ar_cleanupCallback :: UA_DelayedCallback
  ar_server :: bool
  ar_dm :: bool
  ar_client :: "UA_Client option"
  ar_semaphoreFilePath :: UA_String
  ar_unregister :: bool

record UA_ApplicationDescription =
  applicationUri :: UA_String
  productUri :: UA_String
  applicationName :: UA_LocalizedText
  applicationType :: UA_ApplicationType
  gatewayServerUri :: UA_String
  discoveryUrls :: "UA_String list"

record UA_RegisteredServer =
  rs_serverUri :: UA_String
  rs_productUri :: UA_String
  rs_serverNames :: "UA_LocalizedText list"
  rs_serverType :: UA_ApplicationType
  rs_gatewayServerUri :: UA_String
  rs_discoveryUrls :: "UA_String list"
  rs_semaphoreFilePath :: UA_String
  rs_isOnline :: bool

record UA_RequestHeader =
  rh_requestHandle :: "32 word"
  rh_timeoutHint :: "32 word"

record registeredServer_list_entry =
  registeredServer :: UA_RegisteredServer
  lastSeen :: "64 word"

record UA_ServerConfig =
  cfg_logging :: "UA_Logger option"
  cfg_eventLoop :: "UA_EventLoop option"
  applicationDescription :: UA_ApplicationDescription
  discoveryCleanupTimeout :: "32 word"
  mdnsEnabled :: bool
  mdnsConfig :: UA_MdnsDiscoveryConfiguration

record UA_ClientConfig =
  cc_clientContext :: "nat option"
  cc_logging :: "UA_Logger option"
  cc_endpointUrl :: UA_String
  cc_securityMode :: UA_MessageSecurityMode
  cc_noSession :: bool
  cc_eventLoop :: "UA_EventLoop option"
  cc_externalEventLoop :: bool
  cc_stateCallback :: "callback_fn option"

text \<open>The discovery manager. \<open>sc_state\<close> and \<open>sc_notifyState\<close> are the members of
  its embedded \<^verbatim>\<open>UA_ServerComponent sc\<close> (the hook is set or \<^verbatim>\<open>NULL\<close>). The array
  \<^verbatim>\<open>registerRequests[UA_MAXREGISTERREQUESTS]\<close> is a list whose length is that
  constant, so a loop over \<^verbatim>\<open>i < UA_MAXREGISTERREQUESTS\<close> visits the whole list.\<close>

record UA_DiscoveryManager =
  sc_state :: UA_LifecycleState
  sc_notifyState :: bool
  dm_logging :: "UA_Logger option"
  dm_serverConfig :: bool
  discoveryCallbackId :: "64 word"
  registeredServers :: "registeredServer_list_entry list"
  registeredServersSize :: "64 word"
  registerRequests :: "asyncRegisterRequest list"
  mdnsSendConnection :: "64 word"
  mdnsRecvConnectionsSize :: "64 word"
  serverOnNetwork :: "UA_String list"
  selfFqdnMdnsRecord :: UA_String
  serverOnNetworkHash :: "nat list list"

datatype UA_LogLevel = UA_LOGLEVEL_INFO | UA_LOGLEVEL_WARNING | UA_LOGLEVEL_ERROR

datatype UA_LogCategory = UA_LOGCATEGORY_SERVER | UA_LOGCATEGORY_CLIENT

text \<open>The log messages of this file, one constructor for each format string, with the
  arguments that are printed.\<close>

datatype log_message =
    MSG_cannot_delete_not_stopped
  | MSG_cannot_check_semaphore_out_of_memory
  | MSG_registration_removed_semaphore_deleted UA_String UA_String
  | MSG_registration_timed_out UA_String
  | MSG_RegisterServer_succeeded
  | MSG_RegisterServer_failed_with_statuscode UA_StatusCode
  | MSG_RegisterServer_failed_with_error UA_StatusCode
  | MSG_RegisterServer2_failed_with_statuscode UA_StatusCode
  | MSG_could_not_connect UA_StatusCode
  | MSG_server_must_be_started
  | MSG_too_many_outstanding_register_requests
  | MSG_registering_at UA_String
  | MSG_deregistering_at UA_String

datatype service_request =
    RegisterServerRequest UA_RequestHeader UA_RegisteredServer
  | RegisterServer2Request UA_RequestHeader UA_RegisteredServer
      "UA_MdnsDiscoveryConfiguration list"

text \<open>A call into a collaborator. A client pointer is passed as it is read from the
  slot, so it is optional in \<open>Client_disconnectSecureChannelAsync\<close>.\<close>

datatype event =
    NotifyState UA_LifecycleState
  | Log UA_LogLevel UA_LogCategory log_message
  | AddRepeatedCallback callback_fn nat
  | RemoveCallback "64 word"
  | AddDelayedCallback nat
  | StartMulticastDiscoveryServer
  | StopMulticastDiscoveryServer
  | SendMulticastMessages
  | Client_disconnectSecureChannelAsync "UA_Client option"
  | Client_delete UA_Client
  | Client_AsyncService UA_Client service_request callback_fn nat
  | Client_newWithConfig UA_ClientConfig
  | Client_connect UA_Client bool
  | ClientConfig_clear UA_ClientConfig
  | EventLoop_free UA_EventLoop

record UA_Server =
  config :: UA_ServerConfig
  discovery :: UA_DiscoveryManager
  discovery_freed :: bool
  events :: "event list"

text \<open>The build options of the file and the answers of its collaborators.
  \<open>UA_malloc_ok k\<close> tells whether the probe buffer for the \<open>k\<close>-th registration
  visited by a cleanup tick is allocated; the three multicast functions may change the
  manager's send connection and the number of its receive connections, given as a pair;
  \<open>UA_String_copy\<close> returns the copy (the null string when it cannot allocate; the C
  code ignores its status).\<close>

record env =
  UA_ENABLE_DISCOVERY_MULTICAST :: bool
  UA_ENABLE_DISCOVERY_SEMAPHORE :: bool
  UA_ENABLE_ENCRYPTION :: bool
  UA_DateTime_nowMonotonic :: "64 word"
  UA_malloc_ok :: "nat \<Rightarrow> bool"
  UA_fileExists :: "string \<Rightarrow> bool"
  addRepeatedCallback :: "UA_StatusCode \<times> 64 word"
  startMulticastDiscoveryServer :: "64 word \<times> 64 word \<Rightarrow> 64 word \<times> 64 word"
  stopMulticastDiscoveryServer :: "64 word \<times> 64 word \<Rightarrow> 64 word \<times> 64 word"
  sendMulticastMessages :: "64 word \<times> 64 word \<Rightarrow> 64 word \<times> 64 word"
  getServerComponentByName_discovery :: bool
  UA_ClientConfig_clear :: "UA_ClientConfig \<Rightarrow> UA_ClientConfig"
  UA_Client_newWithConfig :: "UA_ClientConfig \<Rightarrow> UA_Client option"
  UA_Client_connect :: "UA_Client \<Rightarrow> UA_StatusCode"
  UA_Client_AsyncService :: "UA_Client \<Rightarrow> service_request \<Rightarrow> UA_StatusCode"
  UA_Client_securityMode :: "UA_Client \<Rightarrow> UA_MessageSecurityMode"
  UA_String_copy :: "UA_String \<Rightarrow> UA_String"

subsection \<open>The lifecycle state and its drain gate\<close>

text \<open>The loop of \<^verbatim>\<open>UA_DiscoveryManager_setState\<close> over the slots: a slot with a client
  sets the state to \<open>STOPPING\<close>.\<close>

primrec setState_slots :: "asyncRegisterRequest list \<Rightarrow> UA_LifecycleState \<Rightarrow> UA_LifecycleState" where
  "setState_slots [] state = state"
| "setState_slots (ar # ars) state =
     setState_slots ars
       (if ar_client ar \<noteq> None then UA_LIFECYCLESTATE_STOPPING else state)"

text \<open>Lines 26 to 39: the state that is set, computed from the state asked for.\<close>

definition setState_target :: "env \<Rightarrow> UA_DiscoveryManager \<Rightarrow> UA_LifecycleState \<Rightarrow> UA_LifecycleState" where
  "setState_target env dm state =
     (if state = UA_LIFECYCLESTATE_STOPPING \<or> state = UA_LIFECYCLESTATE_STOPPED then
        setState_slots (registerRequests dm)
          (if UA_ENABLE_DISCOVERY_MULTICAST env \<and>
              (mdnsRecvConnectionsSize dm \<noteq> 0 \<or> mdnsSendConnection dm \<noteq> 0)
           then UA_LIFECYCLESTATE_STOPPING
           else UA_LIFECYCLESTATE_STOPPED)
      else state)"

definition UA_DiscoveryManager_setState :: "env \<Rightarrow> UA_Server \<Rightarrow> UA_LifecycleState \<Rightarrow> UA_Server" where
  "UA_DiscoveryManager_setState env server state0 =
     (let dm = discovery server;
          state = setState_target env dm state0
      in if state = sc_state dm then server
         else
           let server1 = server\<lparr>discovery := dm\<lparr>sc_state := state\<rparr>\<rparr>
           in if sc_notifyState dm
              then server1\<lparr>events := events server1 @ [NotifyState state]\<rparr>
              else server1)"

subsection \<open>Freeing the manager\<close>

definition UA_DiscoveryManager_free :: "env \<Rightarrow> UA_Server \<Rightarrow> UA_StatusCode \<times> UA_Server" where
  "UA_DiscoveryManager_free env server =
     (let dm = discovery server
      in if sc_state dm \<noteq> UA_LIFECYCLESTATE_STOPPED then
           (UA_STATUSCODE_BADINTERNALERROR,
            server\<lparr>events := events server @
              [Log UA_LOGLEVEL_ERROR UA_LOGCATEGORY_SERVER MSG_cannot_delete_not_stopped]\<rparr>)
         else
           let dm1 = dm\<lparr>registeredServers := []\<rparr>;
               dm2 = (if UA_ENABLE_DISCOVERY_MULTICAST env
                      then dm1\<lparr>serverOnNetwork := [], selfFqdnMdnsRecord := [],
                               serverOnNetworkHash :=
                                 map (\<lambda>bucket. []) (serverOnNetworkHash dm1)\<rparr>
                      else dm1)
           in (UA_STATUSCODE_GOOD, server\<lparr>discovery := dm2, discovery_freed := True\<rparr>))"

subsection \<open>The cleanup tick\<close>

text \<open>Modelled from the spec: \<^verbatim>\<open>UA_DATETIME_SEC\<close> is one second
  (\<open>timedOut = now() - timeout * 1s\<close>). The macro is defined in \<^verbatim>\<open>types.h\<close>, which is
  not among the sources: \<^verbatim>\<open>UA_DateTime\<close> is a signed 64-bit count of 100 ns steps, so
  a second is 10000000 of them. The timeout is an unsigned 32-bit number of seconds; the
  product of the two is formed in 64 bits.\<close>

definition UA_DATETIME_SEC :: "64 word" where
  "UA_DATETIME_SEC = 10000000"

definition cleanup_timedOut :: "env \<Rightarrow> UA_ServerConfig \<Rightarrow> 64 word" where
  "cleanup_timedOut env cfg =
     (let timedOut = UA_DateTime_nowMonotonic env
      in if discoveryCleanupTimeout cfg \<noteq> 0
         then timedOut - ucast (discoveryCleanupTimeout cfg) * UA_DATETIME_SEC
         else timedOut)"

text \<open>The path is copied into a buffer that ends with a zero byte, so the file system
  sees it up to its first zero byte.\<close>

definition c_string :: "UA_String \<Rightarrow> string" where
  "c_string s = takeWhile (\<lambda>c. c \<noteq> CHR 0x00) s"

text \<open>Lines 113 to 130: the value of \<^verbatim>\<open>semaphoreDeleted\<close> for the \<open>k\<close>-th entry
  visited, and what is logged on the way.\<close>

definition cleanup_semaphoreDeleted :: "env \<Rightarrow> nat \<Rightarrow> registeredServer_list_entry \<Rightarrow> bool \<times> event list" where
  "cleanup_semaphoreDeleted env k current =
     (if UA_ENABLE_DISCOVERY_SEMAPHORE env \<and>
         length (rs_semaphoreFilePath (registeredServer current)) \<noteq> 0
      then
        if UA_malloc_ok env k
        then (UA_fileExists env (c_string (rs_semaphoreFilePath (registeredServer current))) = False, [])
        else (False,
              [Log UA_LOGLEVEL_ERROR UA_LOGCATEGORY_SERVER MSG_cannot_check_semaphore_out_of_memory])
      else (False, []))"

text \<open>The loop over the registrations (\<^verbatim>\<open>LIST_FOREACH_SAFE\<close>): it returns the entries
  that stay, the new \<^verbatim>\<open>registeredServersSize\<close> and the log.\<close>

fun cleanup_loop :: "env \<Rightarrow> UA_ServerConfig \<Rightarrow> 64 word \<Rightarrow> nat \<Rightarrow> registeredServer_list_entry list \<Rightarrow> 64 word
    \<Rightarrow> registeredServer_list_entry list \<times> 64 word \<times> event list" where
  "cleanup_loop env cfg timedOut k [] n = ([], n, [])"
| "cleanup_loop env cfg timedOut k (current # rest) n =
     (let (semaphoreDeleted, log1) = cleanup_semaphoreDeleted env k current
      in if semaphoreDeleted \<or>
            (discoveryCleanupTimeout cfg \<noteq> 0 \<and> sint (lastSeen current) < sint timedOut)
         then
           let log2 =
                 (if semaphoreDeleted
                  then [Log UA_LOGLEVEL_INFO UA_LOGCATEGORY_SERVER
                          (MSG_registration_removed_semaphore_deleted
                             (rs_serverUri (registeredServer current))
                             (rs_semaphoreFilePath (registeredServer current)))]
                  else [Log UA_LOGLEVEL_INFO UA_LOGCATEGORY_SERVER
                          (MSG_registration_timed_out
                             (rs_serverUri (registeredServer current)))]);
               (kept, n1, logs) = cleanup_loop env cfg timedOut (Suc k) rest (n - 1)
           in (kept, n1, log1 @ log2 @ logs)
         else
           let (kept, n1, logs) = cleanup_loop env cfg timedOut (Suc k) rest n
           in (current # kept, n1, log1 @ logs))"

definition UA_DiscoveryManager_cleanupTimedOut :: "env \<Rightarrow> UA_Server \<Rightarrow> UA_Server" where
  "UA_DiscoveryManager_cleanupTimedOut env server =
     (let dm = discovery server;
          timedOut = cleanup_timedOut env (config server);
          (kept, n1, logs) =
            cleanup_loop env (config server) timedOut 0 (registeredServers dm)
              (registeredServersSize dm);
          dm1 = dm\<lparr>registeredServers := kept, registeredServersSize := n1\<rparr>;
          server1 = server\<lparr>discovery := dm1, events := events server @ logs\<rparr>
      in if UA_ENABLE_DISCOVERY_MULTICAST env then
           let (snd_conn, recv_size) =
                 sendMulticastMessages env
                   (mdnsSendConnection dm1, mdnsRecvConnectionsSize dm1)
           in server1\<lparr>discovery := dm1\<lparr>mdnsSendConnection := snd_conn,
                                            mdnsRecvConnectionsSize := recv_size\<rparr>,
                        events := events server1 @ [SendMulticastMessages]\<rparr>
         else server1)"

subsection \<open>Start and stop\<close>

text \<open>\<open>addRepeatedCallback env\<close> is the status that the event loop returns and the
  identifier it assigns; the identifier is stored only when the status is good.\<close>

definition UA_DiscoveryManager_start :: "env \<Rightarrow> UA_Server \<Rightarrow> UA_StatusCode \<times> UA_Server" where
  "UA_DiscoveryManager_start env server =
     (if sc_state (discovery server) \<noteq> UA_LIFECYCLESTATE_STOPPED then
        (UA_STATUSCODE_BADINTERNALERROR, server)
      else
        let (res, callbackId) = addRepeatedCallback env;
            server1 = server\<lparr>events := events server @
                        [AddRepeatedCallback CB_UA_DiscoveryManager_cleanupTimedOut 1000]\<rparr>
        in if res \<noteq> UA_STATUSCODE_GOOD then (res, server1)
           else
             let dm1 = (discovery server1)
                         \<lparr>discoveryCallbackId := callbackId,
                          dm_logging := cfg_logging (config server1),
                          dm_serverConfig := True\<rparr>;
                 server2 = server1\<lparr>discovery := dm1\<rparr>;
                 server3 =
                   (if UA_ENABLE_DISCOVERY_MULTICAST env \<and> mdnsEnabled (config server2) then
                      let (snd_conn, recv_size) =
                            startMulticastDiscoveryServer env
                              (mdnsSendConnection dm1, mdnsRecvConnectionsSize dm1)
                      in server2\<lparr>discovery := dm1\<lparr>mdnsSendConnection := snd_conn,
                                                       mdnsRecvConnectionsSize := recv_size\<rparr>,
                                   events := events server2 @ [StartMulticastDiscoveryServer]\<rparr>
                    else server2)
             in (UA_STATUSCODE_GOOD,
                 UA_DiscoveryManager_setState env server3 UA_LIFECYCLESTATE_STARTED))"

text \<open>The loop of \<^verbatim>\<open>UA_DiscoveryManager_stop\<close> over the slots: the disconnect calls it
  makes.\<close>

primrec stop_slots :: "asyncRegisterRequest list \<Rightarrow> event list" where
  "stop_slots [] = []"
| "stop_slots (ar # ars) =
     (if ar_client ar = None then stop_slots ars
      else Client_disconnectSecureChannelAsync (ar_client ar) # stop_slots ars)"

definition UA_DiscoveryManager_stop :: "env \<Rightarrow> UA_Server \<Rightarrow> UA_Server" where
  "UA_DiscoveryManager_stop env server =
     (if sc_state (discovery server) \<noteq> UA_LIFECYCLESTATE_STARTED then server
      else
        let dm = discovery server;
            server1 = server\<lparr>events := events server @
                        [RemoveCallback (discoveryCallbackId dm)] @
                        stop_slots (registerRequests dm)\<rparr>;
            server2 =
              (if UA_ENABLE_DISCOVERY_MULTICAST env \<and> mdnsEnabled (config server1) then
                 let (snd_conn, recv_size) =
                       stopMulticastDiscoveryServer env
                         (mdnsSendConnection dm, mdnsRecvConnectionsSize dm)
                 in server1\<lparr>discovery := dm\<lparr>mdnsSendConnection := snd_conn,
                                                 mdnsRecvConnectionsSize := recv_size\<rparr>,
                              events := events server1 @ [StopMulticastDiscoveryServer]\<rparr>
               else server1)
        in UA_DiscoveryManager_setState env server2 UA_LIFECYCLESTATE_STOPPED)"

subsection \<open>Registering at a discovery server\<close>

text \<open>A slot after \<^verbatim>\<open>memset(ar, 0, sizeof(asyncRegisterRequest))\<close>.\<close>

definition asyncRegisterRequest_zero :: asyncRegisterRequest where
  "asyncRegisterRequest_zero =
     \<lparr>ar_cleanupCallback = \<lparr>cb_callback = None, cb_application = False, cb_context = None\<rparr>,
      ar_server = False, ar_dm = False, ar_client = None,
      ar_semaphoreFilePath = [], ar_unregister = False\<rparr>"

text \<open>The slot \<^verbatim>\<open>ar\<close> is given by its index \<open>i\<close> in \<open>registerRequests\<close>.\<close>

definition asyncRegisterRequest_clear :: "env \<Rightarrow> UA_Server \<Rightarrow> nat \<Rightarrow> UA_Server" where
  "asyncRegisterRequest_clear env server i =
     (let dm = discovery server;
          ar = registerRequests dm ! i;
          ar1 = ar\<lparr>ar_semaphoreFilePath := []\<rparr>;
          deleted = (case ar_client ar1 of None \<Rightarrow> [] | Some c \<Rightarrow> [Client_delete c]);
          dm1 = dm\<lparr>registerRequests := (registerRequests dm)[i := asyncRegisterRequest_zero]\<rparr>;
          server1 = server\<lparr>discovery := dm1, events := events server @ deleted\<rparr>
      in UA_DiscoveryManager_setState env server1 (sc_state (discovery server1)))"

definition asyncRegisterRequest_clearAsync :: "UA_Server \<Rightarrow> nat \<Rightarrow> UA_Server" where
  "asyncRegisterRequest_clearAsync server i =
     (let dm = discovery server;
          ar = registerRequests dm ! i;
          ar1 = ar\<lparr>ar_cleanupCallback :=
                   \<lparr>cb_callback = Some CB_asyncRegisterRequest_clear,
                    cb_application = True, cb_context = Some i\<rparr>\<rparr>
      in server\<lparr>discovery := dm\<lparr>registerRequests := (registerRequests dm)[i := ar1]\<rparr>,
                 events := events server @ [AddDelayedCallback i]\<rparr>)"

definition register2AsyncResponse :: "UA_Server \<Rightarrow> UA_Client \<Rightarrow> nat \<Rightarrow> UA_StatusCode \<Rightarrow> UA_Server" where
  "register2AsyncResponse server client i serviceResult =
     (let ar = registerRequests (discovery server) ! i
      in server\<lparr>events := events server @
           [if serviceResult = UA_STATUSCODE_GOOD
            then Log UA_LOGLEVEL_INFO UA_LOGCATEGORY_SERVER MSG_RegisterServer_succeeded
            else Log UA_LOGLEVEL_WARNING UA_LOGCATEGORY_SERVER
                   (MSG_RegisterServer_failed_with_statuscode serviceResult),
            Client_disconnectSecureChannelAsync (ar_client ar)]\<rparr>)"

definition setupRegisterRequest :: "asyncRegisterRequest \<Rightarrow> UA_ServerConfig \<Rightarrow> UA_RequestHeader \<Rightarrow> UA_RegisteredServer
    \<Rightarrow> UA_RequestHeader \<times> UA_RegisteredServer" where
  "setupRegisterRequest ar sc rh rs =
     (rh\<lparr>rh_timeoutHint := 10000\<rparr>,
      rs\<lparr>rs_isOnline := \<not> ar_unregister ar,
         rs_serverUri := applicationUri (applicationDescription sc),
         rs_productUri := productUri (applicationDescription sc),
         rs_serverType := applicationType (applicationDescription sc),
         rs_gatewayServerUri := gatewayServerUri (applicationDescription sc),
         rs_semaphoreFilePath := ar_semaphoreFilePath ar,
         rs_serverNames := [applicationName (applicationDescription sc)],
         rs_discoveryUrls := discoveryUrls (applicationDescription sc)\<rparr>)"

text \<open>A request after \<^verbatim>\<open>UA_RegisterServerRequest_init\<close> or
  \<^verbatim>\<open>UA_RegisterServer2Request_init\<close>: all members zero.\<close>

definition UA_RequestHeader_init :: UA_RequestHeader where
  "UA_RequestHeader_init = \<lparr>rh_requestHandle = 0, rh_timeoutHint = 0\<rparr>"

definition UA_RegisteredServer_init :: UA_RegisteredServer where
  "UA_RegisteredServer_init =
     \<lparr>rs_serverUri = [], rs_productUri = [], rs_serverNames = [],
      rs_serverType = UA_APPLICATIONTYPE_SERVER, rs_gatewayServerUri = [],
      rs_discoveryUrls = [], rs_semaphoreFilePath = [], rs_isOnline = False\<rparr>"

definition registerAsyncResponse :: "env \<Rightarrow> UA_Server \<Rightarrow> UA_Client \<Rightarrow> nat \<Rightarrow> UA_StatusCode \<Rightarrow> UA_Server" where
  "registerAsyncResponse env server client i serviceResult =
     (let ar = registerRequests (discovery server) ! i;
          sc = config server
      in if serviceResult = UA_STATUSCODE_GOOD then
           server\<lparr>events := events server @
             [Client_disconnectSecureChannelAsync (ar_client ar),
              Log UA_LOGLEVEL_INFO UA_LOGCATEGORY_SERVER MSG_RegisterServer_succeeded]\<rparr>
         else if serviceResult \<noteq> UA_STATUSCODE_BADNOTIMPLEMENTED \<and>
                 serviceResult \<noteq> UA_STATUSCODE_BADSERVICEUNSUPPORTED then
           server\<lparr>events := events server @
             [Client_disconnectSecureChannelAsync (ar_client ar),
              Log UA_LOGLEVEL_WARNING UA_LOGCATEGORY_SERVER
                (MSG_RegisterServer_failed_with_error serviceResult)]\<rparr>
         else
           let (rh, rs) = setupRegisterRequest ar sc UA_RequestHeader_init
                            UA_RegisteredServer_init;
               request = RegisterServer2Request rh rs
                           (if UA_ENABLE_DISCOVERY_MULTICAST env then [mdnsConfig sc] else []);
               res = UA_Client_AsyncService env client request;
               server1 = server\<lparr>events := events server @
                           [Client_AsyncService client request CB_register2AsyncResponse i]\<rparr>
           in if res \<noteq> UA_STATUSCODE_GOOD then
                server1\<lparr>events := events server1 @
                  [Client_disconnectSecureChannelAsync (ar_client ar),
                   Log UA_LOGLEVEL_ERROR UA_LOGCATEGORY_CLIENT
                     (MSG_RegisterServer2_failed_with_statuscode res)]\<rparr>
              else server1)"

text \<open>The slot \<open>i\<close> is the client's context (\<^verbatim>\<open>UA_Client_getContext\<close>).\<close>

definition discoveryClientStateCallback :: "env \<Rightarrow> UA_Server \<Rightarrow> UA_Client \<Rightarrow> nat \<Rightarrow> UA_SecureChannelState \<Rightarrow> UA_SessionState
    \<Rightarrow> UA_StatusCode \<Rightarrow> UA_Server" where
  "discoveryClientStateCallback env server client i channelState sessionState connectStatus =
     (let ar = registerRequests (discovery server) ! i;
          sc = config server
      in if connectStatus \<noteq> UA_STATUSCODE_GOOD then
           let server1 =
                 (if connectStatus \<noteq> UA_STATUSCODE_BADCONNECTIONCLOSED
                  then server\<lparr>events := events server @
                         [Log UA_LOGLEVEL_ERROR UA_LOGCATEGORY_SERVER
                            (MSG_could_not_connect connectStatus)]\<rparr>
                  else server)
           in if channelState = UA_SECURECHANNELSTATE_CLOSED
              then asyncRegisterRequest_clearAsync server1 i
              else server1
         else if channelState \<noteq> UA_SECURECHANNELSTATE_OPEN then server
         else if UA_Client_securityMode env client \<noteq> UA_MESSAGESECURITYMODE_SIGNANDENCRYPT
           then server
         else
           let (rh, rs) = setupRegisterRequest ar sc UA_RequestHeader_init
                            UA_RegisteredServer_init;
               request = RegisterServerRequest rh rs;
               res = UA_Client_AsyncService env client request;
               server1 = server\<lparr>events := events server @
                           [Client_AsyncService client request CB_registerAsyncResponse i]\<rparr>
           in if res \<noteq> UA_STATUSCODE_GOOD then
                server1\<lparr>events := events server1 @
                  [Client_disconnectSecureChannelAsync (ar_client ar),
                   Log UA_LOGLEVEL_ERROR UA_LOGCATEGORY_CLIENT
                     (MSG_RegisterServer_failed_with_statuscode res)]\<rparr>
              else server1)"

text \<open>The search for a free slot: the index of the first slot without a client.\<close>

fun register_findSlot :: "asyncRegisterRequest list \<Rightarrow> nat \<Rightarrow> nat option" where
  "register_findSlot [] i = None"
| "register_findSlot (ar # ars) i =
     (if ar_client ar = None then Some i else register_findSlot ars (Suc i))"

text \<open>A client configuration after \<^verbatim>\<open>memset(cc, 0, sizeof(UA_ClientConfig))\<close>.\<close>

definition UA_ClientConfig_zero :: UA_ClientConfig where
  "UA_ClientConfig_zero =
     \<lparr>cc_clientContext = None, cc_logging = None, cc_endpointUrl = [],
      cc_securityMode = UA_MESSAGESECURITYMODE_INVALID, cc_noSession = False,
      cc_eventLoop = None, cc_externalEventLoop = False, cc_stateCallback = None\<rparr>"

text \<open>Lines 457 to 480 of \<^verbatim>\<open>UA_Server_register\<close>: the caller's configuration as
  it is handed to \<^verbatim>\<open>UA_Client_newWithConfig\<close>, for the slot \<open>i\<close>.\<close>

definition register_adoptConfig :: "env \<Rightarrow> UA_ServerConfig \<Rightarrow> nat \<Rightarrow> UA_String \<Rightarrow> UA_ClientConfig \<Rightarrow> UA_ClientConfig" where
  "register_adoptConfig env sc i discoveryServerUrl cc =
     (let cc1 = cc\<lparr>cc_eventLoop := cfg_eventLoop sc,
                   cc_externalEventLoop := True,
                   cc_logging := cfg_logging sc,
                   cc_stateCallback := Some CB_discoveryClientStateCallback,
                   cc_clientContext := Some i\<rparr>;
          cc2 = (if UA_ENABLE_ENCRYPTION env
                 then cc1\<lparr>cc_securityMode := UA_MESSAGESECURITYMODE_SIGNANDENCRYPT\<rparr>
                 else cc1)
      in cc2\<lparr>cc_noSession := True,
             cc_endpointUrl := UA_String_copy env discoveryServerUrl\<rparr>)"

text \<open>\<^verbatim>\<open>UA_Server_register\<close> returns the status, the server and the caller's
  configuration \<^verbatim>\<open>*cc\<close> as the call leaves it. \<open>UA_Client_connect env c\<close> is the
  status that \<^verbatim>\<open>__UA_Client_connect(c, true)\<close> returns.\<close>

definition UA_Server_register :: "env \<Rightarrow> UA_Server \<Rightarrow> UA_ClientConfig \<Rightarrow> bool \<Rightarrow> UA_String \<Rightarrow> UA_String
    \<Rightarrow> UA_StatusCode \<times> UA_Server \<times> UA_ClientConfig" where
  "UA_Server_register env server cc unregister discoveryServerUrl semaphoreFilePath =
     (if \<not> getServerComponentByName_discovery env then
        (UA_STATUSCODE_BADINTERNALERROR,
         server\<lparr>events := events server @ [ClientConfig_clear cc]\<rparr>,
         UA_ClientConfig_clear env cc)
      else
        let dm = discovery server;
            sc = config server
        in if sc_state dm \<noteq> UA_LIFECYCLESTATE_STARTED then
             (UA_STATUSCODE_BADINTERNALERROR,
              server\<lparr>events := events server @
                [Log UA_LOGLEVEL_ERROR UA_LOGCATEGORY_SERVER MSG_server_must_be_started,
                 ClientConfig_clear cc]\<rparr>,
              UA_ClientConfig_clear env cc)
           else
             case register_findSlot (registerRequests dm) 0 of
               None \<Rightarrow>
                 (UA_STATUSCODE_BADINTERNALERROR,
                  server\<lparr>events := events server @
                    [Log UA_LOGLEVEL_ERROR UA_LOGCATEGORY_SERVER
                       MSG_too_many_outstanding_register_requests,
                     ClientConfig_clear cc]\<rparr>,
                  UA_ClientConfig_clear env cc)
             | Some i \<Rightarrow>
                 let ar = registerRequests dm ! i;
                     freed = (case cc_eventLoop cc of
                                None \<Rightarrow> []
                              | Some el \<Rightarrow>
                                  if \<not> cc_externalEventLoop cc then [EventLoop_free el] else []);
                     cc3 = register_adoptConfig env sc i discoveryServerUrl cc;
                     ar1 = ar\<lparr>ar_client := UA_Client_newWithConfig env cc3\<rparr>;
                     server1 = server\<lparr>discovery :=
                                 dm\<lparr>registerRequests := (registerRequests dm)[i := ar1]\<rparr>,
                               events := events server @ freed @ [Client_newWithConfig cc3]\<rparr>
                 in (case ar_client ar1 of
                      None \<Rightarrow>
                        (UA_STATUSCODE_BADOUTOFMEMORY,
                         server1\<lparr>events := events server1 @ [ClientConfig_clear cc3]\<rparr>,
                         UA_ClientConfig_clear env cc3)
                    | Some c \<Rightarrow>
                        let ar2 = ar1\<lparr>ar_server := True, ar_dm := True,
                                      ar_unregister := unregister,
                                      ar_semaphoreFilePath :=
                                        UA_String_copy env semaphoreFilePath\<rparr>;
                            dm2 = (discovery server1)
                                    \<lparr>registerRequests :=
                                       (registerRequests (discovery server1))[i := ar2]\<rparr>
                        in (UA_Client_connect env c,
                            server1\<lparr>discovery := dm2,
                                    events := events server1 @ [Client_connect c True]\<rparr>,
                            UA_ClientConfig_zero)))"

text \<open>The two public operations. The service mutex they hold around the call is not
  modelled: the functions of this theory run one at a time.\<close>

definition UA_Server_registerDiscovery :: "env \<Rightarrow> UA_Server \<Rightarrow> UA_ClientConfig \<Rightarrow> UA_String \<Rightarrow> UA_String
    \<Rightarrow> UA_StatusCode \<times> UA_Server \<times> UA_ClientConfig" where
  "UA_Server_registerDiscovery env server cc discoveryServerUrl semaphoreFilePath =
     UA_Server_register env
       (server\<lparr>events := events server @
          [Log UA_LOGLEVEL_INFO UA_LOGCATEGORY_SERVER (MSG_registering_at discoveryServerUrl)]\<rparr>)
       cc False discoveryServerUrl semaphoreFilePath"

definition UA_Server_deregisterDiscovery :: "env \<Rightarrow> UA_Server \<Rightarrow> UA_ClientConfig \<Rightarrow> UA_String
    \<Rightarrow> UA_StatusCode \<times> UA_Server \<times> UA_ClientConfig" where
  "UA_Server_deregisterDiscovery env server cc discoveryServerUrl =
     UA_Server_register env
       (server\<lparr>events := events server @
          [Log UA_LOGLEVEL_INFO UA_LOGCATEGORY_SERVER (MSG_deregistering_at discoveryServerUrl)]\<rparr>)
       cc True discoveryServerUrl []"

subsection \<open>Observing the calls\<close>

text \<open>The states passed to the \<^verbatim>\<open>notifyState\<close> hook, in the order of the calls.\<close>

fun notified :: "event list \<Rightarrow> UA_LifecycleState list" where
  "notified [] = []"
| "notified (NotifyState s # es) = s # notified es"
| "notified (e # es) = notified es"

subsection \<open>An example server\<close>

text \<open>A build with multicast, semaphore files and encryption, whose collaborators
  answer as written, and a started server with two slots, the second one in use.\<close>

definition example_env :: env where
  "example_env =
     \<lparr>UA_ENABLE_DISCOVERY_MULTICAST = True,
      UA_ENABLE_DISCOVERY_SEMAPHORE = True,
      UA_ENABLE_ENCRYPTION = True,
      UA_DateTime_nowMonotonic = 1000000000,
      UA_malloc_ok = (\<lambda>k. k \<noteq> 1),
      UA_fileExists = (\<lambda>path. path = ''/tmp/a.sem''),
      addRepeatedCallback = (UA_STATUSCODE_GOOD, 7),
      startMulticastDiscoveryServer = (\<lambda>conns. (5, 2)),
      stopMulticastDiscoveryServer = (\<lambda>conns. conns),
      sendMulticastMessages = (\<lambda>conns. conns),
      getServerComponentByName_discovery = True,
      UA_ClientConfig_clear = (\<lambda>cc. UA_ClientConfig_zero),
      UA_Client_newWithConfig = (\<lambda>cc. Some 42),
      UA_Client_connect = (\<lambda>c. UA_STATUSCODE_BADCONNECTIONREJECTED),
      UA_Client_AsyncService = (\<lambda>c request. UA_STATUSCODE_GOOD),
      UA_Client_securityMode = (\<lambda>c. UA_MESSAGESECURITYMODE_SIGNANDENCRYPT),
      UA_String_copy = (\<lambda>s. s)\<rparr>"

definition example_config :: UA_ServerConfig where
  "example_config =
     \<lparr>cfg_logging = Some 1, cfg_eventLoop = Some 2,
      applicationDescription =
        \<lparr>applicationUri = ''urn:srv'', productUri = ''urn:prod'',
         applicationName = (''en'', ''srv''),
         applicationType = UA_APPLICATIONTYPE_SERVER,
         gatewayServerUri = [],
         discoveryUrls = [''opc.tcp://a:4840'', ''opc.tcp://b:4840'']\<rparr>,
      discoveryCleanupTimeout = 60, mdnsEnabled = True,
      mdnsConfig = (''srv'', [''LDS''])\<rparr>"

definition example_busy_slot :: asyncRegisterRequest where
  "example_busy_slot =
     asyncRegisterRequest_zero
       \<lparr>ar_server := True, ar_dm := True, ar_client := Some 11,
        ar_semaphoreFilePath := ''/tmp/a.sem''\<rparr>"

definition example_dm :: UA_DiscoveryManager where
  "example_dm =
     \<lparr>sc_state = UA_LIFECYCLESTATE_STARTED, sc_notifyState = True,
      dm_logging = Some 1, dm_serverConfig = True, discoveryCallbackId = 7,
      registeredServers = [], registeredServersSize = 0,
      registerRequests = [asyncRegisterRequest_zero, example_busy_slot],
      mdnsSendConnection = 0, mdnsRecvConnectionsSize = 0,
      serverOnNetwork = [], selfFqdnMdnsRecord = [], serverOnNetworkHash = []\<rparr>"

definition example_server :: UA_Server where
  "example_server =
     \<lparr>config = example_config, discovery = example_dm, discovery_freed = False,
      events = []\<rparr>"

text \<open>The same server with no slot in use.\<close>

definition example_idle_server :: UA_Server where
  "example_idle_server =
     example_server\<lparr>discovery :=
       example_dm\<lparr>registerRequests := [asyncRegisterRequest_zero, asyncRegisterRequest_zero]\<rparr>\<rparr>"

text \<open>A registry of five registrations for the cleanup tick: with the clock of
  \<open>example_env\<close> at 100 s and a timeout of 60 s, a registration last seen before 40 s
  is timed out.\<close>

definition example_registration :: "UA_String \<Rightarrow> UA_String \<Rightarrow> 64 word \<Rightarrow> registeredServer_list_entry" where
  "example_registration uri path seen =
     \<lparr>registeredServer =
        \<lparr>rs_serverUri = uri, rs_productUri = [], rs_serverNames = [(''en'', uri)],
         rs_serverType = UA_APPLICATIONTYPE_SERVER, rs_gatewayServerUri = [],
         rs_discoveryUrls = [], rs_semaphoreFilePath = path, rs_isOnline = True\<rparr>,
      lastSeen = seen\<rparr>"

definition example_registry_server :: UA_Server where
  "example_registry_server =
     example_server\<lparr>discovery := example_dm
       \<lparr>registeredServers :=
          [example_registration ''urn:a'' ''/tmp/a.sem'' 900000000,
           example_registration ''urn:b'' ''/tmp/b.sem'' 900000000,
           example_registration ''urn:c'' ''/tmp/c.sem'' 900000000,
           example_registration ''urn:d'' [] 100000000,
           example_registration ''urn:e'' [] 400000000],
        registeredServersSize := 5\<rparr>\<rparr>"

section \<open>Properties\<close>

lemmas statuscode_defs =
  UA_STATUSCODE_GOOD_def UA_STATUSCODE_BADINTERNALERROR_def
  UA_STATUSCODE_BADOUTOFMEMORY_def UA_STATUSCODE_BADSERVICEUNSUPPORTED_def
  UA_STATUSCODE_BADNOTIMPLEMENTED_def UA_STATUSCODE_BADCONNECTIONREJECTED_def
  UA_STATUSCODE_BADCONNECTIONCLOSED_def

lemmas example_defs =
  example_env_def example_config_def example_busy_slot_def example_dm_def
  example_server_def example_idle_server_def asyncRegisterRequest_zero_def
  UA_ClientConfig_zero_def

subsection \<open>The drain gate\<close>

lemma setState_slots_eq:
  "setState_slots ars s =
     (if \<exists>ar \<in> set ars. ar_client ar \<noteq> None then UA_LIFECYCLESTATE_STOPPING else s)"
  by (induction ars arbitrary: s) auto

lemma setState_state:
  "sc_state (discovery (UA_DiscoveryManager_setState env server target)) =
     setState_target env (discovery server) target"
  by (simp add: UA_DiscoveryManager_setState_def Let_def)

lemma setState_frame:
  "discovery (UA_DiscoveryManager_setState env server target) =
     (discovery server)\<lparr>sc_state := setState_target env (discovery server) target\<rparr>"
  by (simp add: UA_DiscoveryManager_setState_def Let_def)

lemma setState_events:
  "events (UA_DiscoveryManager_setState env server target) =
     events server @
       (if setState_target env (discovery server) target \<noteq> sc_state (discovery server)
           \<and> sc_notifyState (discovery server)
        then [NotifyState (setState_target env (discovery server) target)] else [])"
  by (simp add: UA_DiscoveryManager_setState_def Let_def)

lemma notified_append: "notified (xs @ ys) = notified xs @ notified ys"
  by (induction xs rule: notified.induct) simp_all

text \<open>
  Claim C1. When \<^verbatim>\<open>UA_DiscoveryManager_setState\<close> is called with the target
  \<open>STOPPING\<close> or \<open>STOPPED\<close>, the state it leaves is \<open>STOPPING\<close> if some slot has
  a client or (in a multicast build) a multicast receive connection is open or the
  multicast send connection is allocated, and \<open>STOPPED\<close> otherwise. The call changes
  neither the slots nor the multicast connections. So whatever the target, a call that
  leaves the state \<open>STOPPED\<close> leaves every slot without a client and, in a multicast
  build, no multicast connection.
\<close>

theorem setState_drain_gate:
  "(target = UA_LIFECYCLESTATE_STOPPING \<or> target = UA_LIFECYCLESTATE_STOPPED \<longrightarrow>
      sc_state (discovery (UA_DiscoveryManager_setState env server target)) =
        (if (\<exists>ar \<in> set (registerRequests (discovery server)). ar_client ar \<noteq> None) \<or>
            (UA_ENABLE_DISCOVERY_MULTICAST env \<and>
               (mdnsRecvConnectionsSize (discovery server) \<noteq> 0 \<or>
                mdnsSendConnection (discovery server) \<noteq> 0))
         then UA_LIFECYCLESTATE_STOPPING else UA_LIFECYCLESTATE_STOPPED)) \<and>
   registerRequests (discovery (UA_DiscoveryManager_setState env server target)) =
     registerRequests (discovery server) \<and>
   mdnsRecvConnectionsSize (discovery (UA_DiscoveryManager_setState env server target)) =
     mdnsRecvConnectionsSize (discovery server) \<and>
   mdnsSendConnection (discovery (UA_DiscoveryManager_setState env server target)) =
     mdnsSendConnection (discovery server) \<and>
   (sc_state (discovery (UA_DiscoveryManager_setState env server target)) =
      UA_LIFECYCLESTATE_STOPPED \<longrightarrow>
      (\<forall>ar \<in> set (registerRequests (discovery (UA_DiscoveryManager_setState env server target))).
          ar_client ar = None) \<and>
      (UA_ENABLE_DISCOVERY_MULTICAST env \<longrightarrow>
         mdnsRecvConnectionsSize (discovery (UA_DiscoveryManager_setState env server target)) = 0 \<and>
         mdnsSendConnection (discovery (UA_DiscoveryManager_setState env server target)) = 0))"
  unfolding setState_frame
  by (auto simp add: setState_target_def setState_slots_eq split: if_splits)

theorem setState_drain_gate_witness:
  "sc_state (discovery (UA_DiscoveryManager_setState example_env example_server
      UA_LIFECYCLESTATE_STOPPED)) = UA_LIFECYCLESTATE_STOPPING \<and>
   sc_state (discovery (UA_DiscoveryManager_setState example_env example_idle_server
      UA_LIFECYCLESTATE_STOPPING)) = UA_LIFECYCLESTATE_STOPPED \<and>
   map ar_client (registerRequests (discovery (UA_DiscoveryManager_setState example_env
      example_idle_server UA_LIFECYCLESTATE_STOPPING))) = [None, None]"
  using setState_drain_gate [where target = UA_LIFECYCLESTATE_STOPPED
          and env = example_env and server = example_server]
        setState_drain_gate [where target = UA_LIFECYCLESTATE_STOPPING
          and env = example_env and server = example_idle_server]
  by (simp add: example_defs)

subsection \<open>Notification of state changes\<close>

text \<open>
  Claim C10. If the state that \<^verbatim>\<open>UA_DiscoveryManager_setState\<close> computes from its
  target (\<open>setState_target\<close>) is the current state, the call changes nothing and calls
  no hook. Otherwise the computed state is written and, when the \<^verbatim>\<open>notifyState\<close> hook is
  installed, the hook is called once with it. Hence, if the states notified so far have
  no two equal neighbours and the last of them is the current state, the same holds
  after the call: the hook is never called with the same state twice in a row.
\<close>

theorem setState_notifies_strict_changes:
  "(setState_target env (discovery server) target = sc_state (discovery server) \<longrightarrow>
      UA_DiscoveryManager_setState env server target = server) \<and>
   (setState_target env (discovery server) target \<noteq> sc_state (discovery server) \<longrightarrow>
      sc_state (discovery (UA_DiscoveryManager_setState env server target)) =
        setState_target env (discovery server) target \<and>
      events (UA_DiscoveryManager_setState env server target) =
        events server @
          (if sc_notifyState (discovery server)
           then [NotifyState (setState_target env (discovery server) target)] else [])) \<and>
   (distinct_adj (notified (events server)) \<and>
    (notified (events server) = [] \<or>
     last (notified (events server)) = sc_state (discovery server)) \<longrightarrow>
      distinct_adj (notified (events (UA_DiscoveryManager_setState env server target))) \<and>
      (sc_notifyState (discovery server) \<longrightarrow>
         notified (events (UA_DiscoveryManager_setState env server target)) = [] \<or>
         last (notified (events (UA_DiscoveryManager_setState env server target))) =
           sc_state (discovery (UA_DiscoveryManager_setState env server target))))"
proof (intro conjI impI)
  assume "setState_target env (discovery server) target = sc_state (discovery server)"
  then show "UA_DiscoveryManager_setState env server target = server"
    by (simp add: UA_DiscoveryManager_setState_def)
next
  show "sc_state (discovery (UA_DiscoveryManager_setState env server target)) =
        setState_target env (discovery server) target"
    by (rule setState_state)
next
  assume "setState_target env (discovery server) target \<noteq> sc_state (discovery server)"
  then show "events (UA_DiscoveryManager_setState env server target) =
        events server @
          (if sc_notifyState (discovery server)
           then [NotifyState (setState_target env (discovery server) target)] else [])"
    by (simp add: setState_events)
next
  assume "distinct_adj (notified (events server)) \<and>
    (notified (events server) = [] \<or>
     last (notified (events server)) = sc_state (discovery server))"
  then show "distinct_adj (notified (events (UA_DiscoveryManager_setState env server target)))"
    by (auto simp add: setState_events notified_append distinct_adj_append_iff)
next
  assume "distinct_adj (notified (events server)) \<and>
    (notified (events server) = [] \<or>
     last (notified (events server)) = sc_state (discovery server))"
  moreover assume "sc_notifyState (discovery server)"
  ultimately show "notified (events (UA_DiscoveryManager_setState env server target)) = [] \<or>
         last (notified (events (UA_DiscoveryManager_setState env server target))) =
           sc_state (discovery (UA_DiscoveryManager_setState env server target))"
    by (auto simp add: setState_events setState_state notified_append)
qed

theorem setState_notifies_strict_changes_witness:
  "UA_DiscoveryManager_setState example_env example_server UA_LIFECYCLESTATE_STARTED =
     example_server \<and>
   events (UA_DiscoveryManager_setState example_env example_server
     UA_LIFECYCLESTATE_STOPPED) = [NotifyState UA_LIFECYCLESTATE_STOPPING] \<and>
   distinct_adj (notified (events (UA_DiscoveryManager_setState example_env example_server
     UA_LIFECYCLESTATE_STOPPED))) \<and>
   last (notified (events (UA_DiscoveryManager_setState example_env example_server
     UA_LIFECYCLESTATE_STOPPED))) = UA_LIFECYCLESTATE_STOPPING"
  using setState_notifies_strict_changes [where target = UA_LIFECYCLESTATE_STARTED
          and env = example_env and server = example_server]
        setState_notifies_strict_changes [where target = UA_LIFECYCLESTATE_STOPPED
          and env = example_env and server = example_server]
  by (simp add: example_defs setState_target_def)

subsection \<open>Stopping\<close>

lemma stop_slots_eq:
  "stop_slots ars =
     map (\<lambda>ar. Client_disconnectSecureChannelAsync (ar_client ar))
       (filter (\<lambda>ar. ar_client ar \<noteq> None) ars)"
  by (induction ars) simp_all

text \<open>
  Claim C7. \<^verbatim>\<open>UA_DiscoveryManager_stop\<close> returns the server as it is when the state is
  not \<open>STARTED\<close>. When it is \<open>STARTED\<close>, stop removes the cleanup callback, calls
  \<^verbatim>\<open>UA_Client_disconnectSecureChannelAsync\<close> once for each slot that has a client
  and for no other slot, in the order of the slots, stops the multicast engine when
  multicast is built in and enabled, and then calls \<^verbatim>\<open>UA_DiscoveryManager_setState\<close>
  with \<open>STOPPED\<close>; the slots keep their clients and the state left is
  \<open>STOPPING\<close> or \<open>STOPPED\<close>.
\<close>

theorem stop_cancels_every_request:
  "(sc_state (discovery server) \<noteq> UA_LIFECYCLESTATE_STARTED \<longrightarrow>
      UA_DiscoveryManager_stop env server = server) \<and>
   (sc_state (discovery server) = UA_LIFECYCLESTATE_STARTED \<longrightarrow>
      UA_DiscoveryManager_stop env server =
        UA_DiscoveryManager_setState env
          (if UA_ENABLE_DISCOVERY_MULTICAST env \<and> mdnsEnabled (config server) then
             server\<lparr>discovery := (discovery server)
                       \<lparr>mdnsSendConnection :=
                          fst (stopMulticastDiscoveryServer env
                                 (mdnsSendConnection (discovery server),
                                  mdnsRecvConnectionsSize (discovery server))),
                        mdnsRecvConnectionsSize :=
                          snd (stopMulticastDiscoveryServer env
                                 (mdnsSendConnection (discovery server),
                                  mdnsRecvConnectionsSize (discovery server)))\<rparr>,
                     events := events server @
                       RemoveCallback (discoveryCallbackId (discovery server)) #
                       map (\<lambda>ar. Client_disconnectSecureChannelAsync (ar_client ar))
                         (filter (\<lambda>ar. ar_client ar \<noteq> None)
                            (registerRequests (discovery server))) @
                       [StopMulticastDiscoveryServer]\<rparr>
           else
             server\<lparr>events := events server @
                       RemoveCallback (discoveryCallbackId (discovery server)) #
                       map (\<lambda>ar. Client_disconnectSecureChannelAsync (ar_client ar))
                         (filter (\<lambda>ar. ar_client ar \<noteq> None)
                            (registerRequests (discovery server)))\<rparr>)
          UA_LIFECYCLESTATE_STOPPED \<and>
      registerRequests (discovery (UA_DiscoveryManager_stop env server)) =
        registerRequests (discovery server) \<and>
      (sc_state (discovery (UA_DiscoveryManager_stop env server)) = UA_LIFECYCLESTATE_STOPPING \<or>
       sc_state (discovery (UA_DiscoveryManager_stop env server)) = UA_LIFECYCLESTATE_STOPPED))"
proof (intro conjI impI)
  assume "sc_state (discovery server) \<noteq> UA_LIFECYCLESTATE_STARTED"
  then show "UA_DiscoveryManager_stop env server = server"
    by (simp add: UA_DiscoveryManager_stop_def)
next
  assume started: "sc_state (discovery server) = UA_LIFECYCLESTATE_STARTED"
  then show "UA_DiscoveryManager_stop env server =
        UA_DiscoveryManager_setState env
          (if UA_ENABLE_DISCOVERY_MULTICAST env \<and> mdnsEnabled (config server) then
             server\<lparr>discovery := (discovery server)
                       \<lparr>mdnsSendConnection :=
                          fst (stopMulticastDiscoveryServer env
                                 (mdnsSendConnection (discovery server),
                                  mdnsRecvConnectionsSize (discovery server))),
                        mdnsRecvConnectionsSize :=
                          snd (stopMulticastDiscoveryServer env
                                 (mdnsSendConnection (discovery server),
                                  mdnsRecvConnectionsSize (discovery server)))\<rparr>,
                     events := events server @
                       RemoveCallback (discoveryCallbackId (discovery server)) #
                       map (\<lambda>ar. Client_disconnectSecureChannelAsync (ar_client ar))
                         (filter (\<lambda>ar. ar_client ar \<noteq> None)
                            (registerRequests (discovery server))) @
                       [StopMulticastDiscoveryServer]\<rparr>
           else
             server\<lparr>events := events server @
                       RemoveCallback (discoveryCallbackId (discovery server)) #
                       map (\<lambda>ar. Client_disconnectSecureChannelAsync (ar_client ar))
                         (filter (\<lambda>ar. ar_client ar \<noteq> None)
                            (registerRequests (discovery server)))\<rparr>)
          UA_LIFECYCLESTATE_STOPPED"
    by (simp add: UA_DiscoveryManager_stop_def Let_def stop_slots_eq split_beta)
  from started show "registerRequests (discovery (UA_DiscoveryManager_stop env server)) =
        registerRequests (discovery server)"
    by (simp add: UA_DiscoveryManager_stop_def Let_def split_beta
        UA_DiscoveryManager_setState_def)
  from started show "sc_state (discovery (UA_DiscoveryManager_stop env server)) = UA_LIFECYCLESTATE_STOPPING \<or>
       sc_state (discovery (UA_DiscoveryManager_stop env server)) = UA_LIFECYCLESTATE_STOPPED"
    by (simp add: UA_DiscoveryManager_stop_def Let_def split_beta
        UA_DiscoveryManager_setState_def setState_target_def setState_slots_eq)
qed

theorem stop_cancels_every_request_witness:
  "events (UA_DiscoveryManager_stop example_env example_server) =
     [RemoveCallback 7, Client_disconnectSecureChannelAsync (Some 11),
      StopMulticastDiscoveryServer, NotifyState UA_LIFECYCLESTATE_STOPPING] \<and>
   UA_DiscoveryManager_stop example_env
     (UA_DiscoveryManager_stop example_env example_server) =
     UA_DiscoveryManager_stop example_env example_server"
  using stop_cancels_every_request [where env = example_env and server = example_server]
    stop_cancels_every_request [where env = example_env
      and server = "UA_DiscoveryManager_stop example_env example_server"]
  by (simp add: example_defs UA_DiscoveryManager_setState_def setState_target_def)

subsection \<open>Lifecycle violations\<close>

lemma register_not_started:
  "sc_state (discovery server) \<noteq> UA_LIFECYCLESTATE_STARTED \<Longrightarrow>
   fst (UA_Server_register env server cc unregister url sem) = UA_STATUSCODE_BADINTERNALERROR \<and>
   discovery (fst (snd (UA_Server_register env server cc unregister url sem))) =
     discovery server"
  by (simp add: UA_Server_register_def Let_def)

text \<open>
  Claim C5. A call in the wrong lifecycle state returns \<open>BADINTERNALERROR\<close> and
  changes nothing of the manager: \<^verbatim>\<open>UA_DiscoveryManager_start\<close> in a state other than
  \<open>STOPPED\<close> returns the server as it is (no callback is added);
  \<^verbatim>\<open>UA_DiscoveryManager_free\<close> in a state other than \<open>STOPPED\<close> only logs an error
  (the manager, its lists and the freed flag stay as they are);
  \<^verbatim>\<open>UA_Server_registerDiscovery\<close> and \<^verbatim>\<open>UA_Server_deregisterDiscovery\<close> in a state
  other than \<open>STARTED\<close> leave the manager, and so every slot, as it is.
\<close>

theorem lifecycle_violations:
  "(sc_state (discovery server) \<noteq> UA_LIFECYCLESTATE_STOPPED \<longrightarrow>
      UA_DiscoveryManager_start env server = (UA_STATUSCODE_BADINTERNALERROR, server) \<and>
      UA_DiscoveryManager_free env server =
        (UA_STATUSCODE_BADINTERNALERROR,
         server\<lparr>events := events server @
           [Log UA_LOGLEVEL_ERROR UA_LOGCATEGORY_SERVER MSG_cannot_delete_not_stopped]\<rparr>)) \<and>
   (sc_state (discovery server) \<noteq> UA_LIFECYCLESTATE_STARTED \<longrightarrow>
      fst (UA_Server_registerDiscovery env server cc url sem) =
        UA_STATUSCODE_BADINTERNALERROR \<and>
      discovery (fst (snd (UA_Server_registerDiscovery env server cc url sem))) =
        discovery server \<and>
      fst (UA_Server_deregisterDiscovery env server cc url) =
        UA_STATUSCODE_BADINTERNALERROR \<and>
      discovery (fst (snd (UA_Server_deregisterDiscovery env server cc url))) =
        discovery server)"
proof (intro conjI impI)
  assume "sc_state (discovery server) \<noteq> UA_LIFECYCLESTATE_STOPPED"
  then show "UA_DiscoveryManager_start env server = (UA_STATUSCODE_BADINTERNALERROR, server)"
    by (simp add: UA_DiscoveryManager_start_def)
next
  assume "sc_state (discovery server) \<noteq> UA_LIFECYCLESTATE_STOPPED"
  then show "UA_DiscoveryManager_free env server =
        (UA_STATUSCODE_BADINTERNALERROR,
         server\<lparr>events := events server @
           [Log UA_LOGLEVEL_ERROR UA_LOGCATEGORY_SERVER MSG_cannot_delete_not_stopped]\<rparr>)"
    by (simp add: UA_DiscoveryManager_free_def)
next
  assume ns: "sc_state (discovery server) \<noteq> UA_LIFECYCLESTATE_STARTED"
  then show "fst (UA_Server_registerDiscovery env server cc url sem) =
        UA_STATUSCODE_BADINTERNALERROR"
    by (simp add: UA_Server_registerDiscovery_def register_not_started)
  from ns show "discovery (fst (snd (UA_Server_registerDiscovery env server cc url sem))) =
        discovery server"
    by (simp add: UA_Server_registerDiscovery_def register_not_started)
  from ns show "fst (UA_Server_deregisterDiscovery env server cc url) =
        UA_STATUSCODE_BADINTERNALERROR"
    by (simp add: UA_Server_deregisterDiscovery_def register_not_started)
  from ns show "discovery (fst (snd (UA_Server_deregisterDiscovery env server cc url))) =
        discovery server"
    by (simp add: UA_Server_deregisterDiscovery_def register_not_started)
qed

theorem lifecycle_violations_witness:
  "UA_DiscoveryManager_start example_env example_server =
     (UA_STATUSCODE_BADINTERNALERROR, example_server) \<and>
   fst (UA_DiscoveryManager_free example_env example_server) =
     UA_STATUSCODE_BADINTERNALERROR \<and>
   fst (UA_Server_registerDiscovery example_env
          (UA_DiscoveryManager_stop example_env example_server)
          UA_ClientConfig_zero ''opc.tcp://disc:4840'' []) = UA_STATUSCODE_BADINTERNALERROR \<and>
   map ar_client (registerRequests (discovery (fst (snd (UA_Server_registerDiscovery example_env
          (UA_DiscoveryManager_stop example_env example_server)
          UA_ClientConfig_zero ''opc.tcp://disc:4840'' []))))) = [None, Some 11]"
  using lifecycle_violations [where env = example_env and server = example_server]
    lifecycle_violations [where env = example_env
      and server = "UA_DiscoveryManager_stop example_env example_server"
      and cc = UA_ClientConfig_zero and url = "''opc.tcp://disc:4840''" and sem = "[]"]
  by (simp add: example_defs UA_DiscoveryManager_stop_def UA_DiscoveryManager_setState_def
      setState_target_def)

subsection \<open>The cleanup tick\<close>

lemma signed_take_bit_63_small:
  "0 \<le> (x::int) \<Longrightarrow> x < 2 ^ 32 \<Longrightarrow> signed_take_bit 63 x = x"
  by (rule signed_take_bit_int_eq_self) simp_all

lemma signed_take_bit_63_product:
  "0 \<le> (x::int) \<Longrightarrow> x < 2 ^ 32 \<Longrightarrow> signed_take_bit 63 (x * 10000000) = x * 10000000"
  by (rule signed_take_bit_int_eq_self) simp_all

lemma signed_take_bit_63_diff:
  "0 \<le> (x::int) \<Longrightarrow> n < 2 ^ 63 \<Longrightarrow> - (2 ^ 63) \<le> n - x * 10000000 \<Longrightarrow>
   signed_take_bit 63 (n - x * 10000000) = n - x * 10000000"
  by (rule signed_take_bit_int_eq_self) simp_all

lemma uint_timeout_bound: "uint (t :: 32 word) < 4294967296"
  using uint_lt2p [of t] by simp

lemma sint_ucast_timeout: "sint (ucast (t :: 32 word) :: 64 word) = uint t"
proof -
  have "sint (ucast t :: 64 word) = signed_take_bit 63 (uint t)"
    by (simp add: signed_ucast_eq)
  also have "\<dots> = uint t"
    by (rule signed_take_bit_63_small) (simp_all add: uint_timeout_bound)
  finally show ?thesis .
qed

lemma sint_timeout_product:
  "sint ((ucast (t :: 32 word) :: 64 word) * UA_DATETIME_SEC) = uint t * 10000000"
proof -
  have "sint ((ucast t :: 64 word) * UA_DATETIME_SEC) =
        signed_take_bit 63 (sint (ucast t :: 64 word) * sint (10000000 :: 64 word))"
    by (simp add: UA_DATETIME_SEC_def sint_word_ariths)
  also have "\<dots> = signed_take_bit 63 (uint t * 10000000)"
    by (simp add: sint_ucast_timeout)
  also have "\<dots> = uint t * 10000000"
    by (rule signed_take_bit_63_product) (simp_all add: uint_timeout_bound)
  finally show ?thesis .
qed

lemma sint_timedOut:
  assumes "- (2 ^ 63) \<le> sint (now :: 64 word) - uint (t :: 32 word) * 10000000"
  shows "sint (now - ucast t * UA_DATETIME_SEC) = sint now - uint t * 10000000"
proof -
  have up: "sint now < 2 ^ 63" using sint_lt [of now] by simp
  have "sint (now - ucast t * UA_DATETIME_SEC) =
        signed_take_bit 63 (sint now - sint ((ucast t :: 64 word) * UA_DATETIME_SEC))"
    by (simp add: sint_word_ariths)
  also have "\<dots> = signed_take_bit 63 (sint now - uint t * 10000000)"
    by (simp add: sint_timeout_product)
  also have "\<dots> = sint now - uint t * 10000000"
    using up assms by (intro signed_take_bit_63_diff) simp_all
  finally show ?thesis .
qed

lemma cleanup_semaphoreDeleted_fst:
  "fst (cleanup_semaphoreDeleted env k current) =
     (UA_ENABLE_DISCOVERY_SEMAPHORE env \<and>
      rs_semaphoreFilePath (registeredServer current) \<noteq> [] \<and>
      UA_malloc_ok env k \<and>
      \<not> UA_fileExists env (c_string (rs_semaphoreFilePath (registeredServer current))))"
  by (simp add: cleanup_semaphoreDeleted_def)

lemma cleanup_loop_kept:
  "fst (cleanup_loop env cfg timedOut k regs n) =
     map snd (filter (\<lambda>(j, current).
         \<not> (fst (cleanup_semaphoreDeleted env j current) \<or>
            (discoveryCleanupTimeout cfg \<noteq> 0 \<and> sint (lastSeen current) < sint timedOut)))
       (enumerate k regs))"
  by (induction regs arbitrary: k n) (simp_all add: split_beta Let_def)

lemma map_snd_filter_enumerate:
  "map snd (filter (\<lambda>p. P (snd p)) (enumerate k xs)) = filter P xs"
  by (induction xs arbitrary: k) simp_all

lemma cleanupTimedOut_kept:
  "registeredServers (discovery (UA_DiscoveryManager_cleanupTimedOut env server)) =
     fst (cleanup_loop env (config server) (cleanup_timedOut env (config server)) 0
            (registeredServers (discovery server)) (registeredServersSize (discovery server)))"
  by (simp add: UA_DiscoveryManager_cleanupTimedOut_def Let_def split_beta)

lemma cleanup_timedOut_sint:
  assumes "discoveryCleanupTimeout cfg \<noteq> 0"
    and "- (2 ^ 63) \<le> sint (UA_DateTime_nowMonotonic env) -
            uint (discoveryCleanupTimeout cfg) * 10000000"
  shows "sint (cleanup_timedOut env cfg) =
           sint (UA_DateTime_nowMonotonic env) - uint (discoveryCleanupTimeout cfg) * 10000000"
  using assms by (simp add: cleanup_timedOut_def sint_timedOut)

text \<open>
  Claim C2. A cleanup tick keeps exactly the registrations, taken with their position
  \<open>k\<close> in the list, for which neither of these holds: the semaphore file is confirmed
  missing (semaphore files are built in, the path is not empty, the probe buffer was
  allocated and the file does not exist), or the timeout is not zero and \<open>lastSeen\<close> is
  strictly less than the clock minus the timeout in seconds (times 10000000, the number of
  100 ns steps in a second). When every probe allocation fails, only the timeout removes
  registrations; when the timeout is zero, only a missing semaphore file does. The clock
  minus the timeout is assumed not to fall below the least 64-bit value, where the C
  subtraction would overflow.
\<close>

theorem cleanup_removes_iff:
  assumes no_overflow:
    "discoveryCleanupTimeout (config server) \<noteq> 0 \<longrightarrow>
       - (2 ^ 63) \<le> sint (UA_DateTime_nowMonotonic env) -
            uint (discoveryCleanupTimeout (config server)) * 10000000"
  shows
    "registeredServers (discovery (UA_DiscoveryManager_cleanupTimedOut env server)) =
       map snd (filter (\<lambda>(k, current).
           \<not> ((UA_ENABLE_DISCOVERY_SEMAPHORE env \<and>
                rs_semaphoreFilePath (registeredServer current) \<noteq> [] \<and>
                UA_malloc_ok env k \<and>
                \<not> UA_fileExists env (c_string (rs_semaphoreFilePath (registeredServer current)))) \<or>
               (discoveryCleanupTimeout (config server) \<noteq> 0 \<and>
                sint (lastSeen current) <
                  sint (UA_DateTime_nowMonotonic env) -
                    uint (discoveryCleanupTimeout (config server)) * 10000000)))
         (enumerate 0 (registeredServers (discovery server)))) \<and>
     ((\<forall>k. \<not> UA_malloc_ok env k) \<longrightarrow>
        registeredServers (discovery (UA_DiscoveryManager_cleanupTimedOut env server)) =
          filter (\<lambda>current.
              \<not> (discoveryCleanupTimeout (config server) \<noteq> 0 \<and>
                 sint (lastSeen current) <
                   sint (UA_DateTime_nowMonotonic env) -
                     uint (discoveryCleanupTimeout (config server)) * 10000000))
            (registeredServers (discovery server))) \<and>
     (discoveryCleanupTimeout (config server) = 0 \<longrightarrow>
        registeredServers (discovery (UA_DiscoveryManager_cleanupTimedOut env server)) =
          map snd (filter (\<lambda>(k, current).
              \<not> (UA_ENABLE_DISCOVERY_SEMAPHORE env \<and>
                 rs_semaphoreFilePath (registeredServer current) \<noteq> [] \<and>
                 UA_malloc_ok env k \<and>
                 \<not> UA_fileExists env (c_string (rs_semaphoreFilePath (registeredServer current)))))
            (enumerate 0 (registeredServers (discovery server)))))"
proof -
  let ?regs = "registeredServers (discovery server)"
  let ?t = "discoveryCleanupTimeout (config server)"
  let ?late = "\<lambda>current. ?t \<noteq> 0 \<and> sint (lastSeen current) <
      sint (UA_DateTime_nowMonotonic env) - uint ?t * 10000000"
  let ?missing = "\<lambda>k current. UA_ENABLE_DISCOVERY_SEMAPHORE env \<and>
      rs_semaphoreFilePath (registeredServer current) \<noteq> [] \<and> UA_malloc_ok env k \<and>
      \<not> UA_fileExists env (c_string (rs_semaphoreFilePath (registeredServer current)))"
  have late: "(?t \<noteq> 0 \<and> sint (lastSeen current) < sint (cleanup_timedOut env (config server)))
      = ?late current" for current
    using no_overflow by (cases "?t = 0") (simp_all add: cleanup_timedOut_sint)
  have main: "registeredServers (discovery (UA_DiscoveryManager_cleanupTimedOut env server)) =
      map snd (filter (\<lambda>(k, current). \<not> (?missing k current \<or> ?late current))
        (enumerate 0 ?regs))"
    unfolding cleanupTimedOut_kept cleanup_loop_kept cleanup_semaphoreDeleted_fst late ..
  have probe: "map snd (filter (\<lambda>(k, current). \<not> (?missing k current \<or> ?late current))
        (enumerate 0 ?regs)) = filter (\<lambda>current. \<not> ?late current) ?regs"
    if "\<forall>k. \<not> UA_malloc_ok env k"
  proof -
    have "filter (\<lambda>(k, current). \<not> (?missing k current \<or> ?late current)) (enumerate 0 ?regs)
        = filter (\<lambda>p. \<not> ?late (snd p)) (enumerate 0 ?regs)"
      using that by (intro filter_cong) (auto simp add: split_beta)
    moreover have "map snd (filter (\<lambda>p. \<not> ?late (snd p)) (enumerate 0 ?regs)) =
        filter (\<lambda>current. \<not> ?late current) ?regs"
      by (rule map_snd_filter_enumerate [where P = "\<lambda>current. \<not> ?late current"])
    ultimately show ?thesis
      by (simp only:)
  qed
  have zero: "map snd (filter (\<lambda>(k, current). \<not> (?missing k current \<or> ?late current))
        (enumerate 0 ?regs)) =
      map snd (filter (\<lambda>(k, current). \<not> ?missing k current) (enumerate 0 ?regs))"
    if "?t = 0"
    using that by simp
  show ?thesis
    using main probe zero by simp
qed

theorem cleanup_removes_iff_witness:
  "map (\<lambda>current. rs_serverUri (registeredServer current))
     (registeredServers (discovery
        (UA_DiscoveryManager_cleanupTimedOut example_env example_registry_server))) =
     [''urn:a'', ''urn:b'', ''urn:e''] \<and>
   registeredServers (discovery
     (UA_DiscoveryManager_cleanupTimedOut (example_env\<lparr>UA_malloc_ok := \<lambda>k. False\<rparr>)
        (example_registry_server\<lparr>config := example_config\<lparr>discoveryCleanupTimeout := 0\<rparr>\<rparr>))) =
     registeredServers (discovery example_registry_server)"
  using cleanup_removes_iff [where env = example_env and server = example_registry_server]
    cleanup_removes_iff [where env = "example_env\<lparr>UA_malloc_ok := \<lambda>k. False\<rparr>"
      and server = "example_registry_server\<lparr>config := example_config\<lparr>discoveryCleanupTimeout := 0\<rparr>\<rparr>"]
  by (simp add: example_defs example_registry_server_def example_registration_def
      c_string_def enumerate_eq_zip upt_rec)

subsection \<open>The responses to RegisterServer and RegisterServer2\<close>

lemma registerAsyncResponse_good:
  "registerAsyncResponse env server client i UA_STATUSCODE_GOOD =
     server\<lparr>events := events server @
       [Client_disconnectSecureChannelAsync (ar_client (registerRequests (discovery server) ! i)),
        Log UA_LOGLEVEL_INFO UA_LOGCATEGORY_SERVER MSG_RegisterServer_succeeded]\<rparr>"
  by (simp add: registerAsyncResponse_def)

lemma registerAsyncResponse_other:
  "serviceResult \<noteq> UA_STATUSCODE_GOOD \<Longrightarrow>
   serviceResult \<noteq> UA_STATUSCODE_BADNOTIMPLEMENTED \<Longrightarrow>
   serviceResult \<noteq> UA_STATUSCODE_BADSERVICEUNSUPPORTED \<Longrightarrow>
   registerAsyncResponse env server client i serviceResult =
     server\<lparr>events := events server @
       [Client_disconnectSecureChannelAsync (ar_client (registerRequests (discovery server) ! i)),
        Log UA_LOGLEVEL_WARNING UA_LOGCATEGORY_SERVER
          (MSG_RegisterServer_failed_with_error serviceResult)]\<rparr>"
  by (simp add: registerAsyncResponse_def)

lemma registerAsyncResponse_fallback:
  "serviceResult = UA_STATUSCODE_BADNOTIMPLEMENTED \<or>
   serviceResult = UA_STATUSCODE_BADSERVICEUNSUPPORTED \<Longrightarrow>
   events (registerAsyncResponse env server client i serviceResult) =
     events server @
       Client_AsyncService client
         (RegisterServer2Request
            (fst (setupRegisterRequest (registerRequests (discovery server) ! i) (config server)
                    UA_RequestHeader_init UA_RegisteredServer_init))
            (snd (setupRegisterRequest (registerRequests (discovery server) ! i) (config server)
                    UA_RequestHeader_init UA_RegisteredServer_init))
            (if UA_ENABLE_DISCOVERY_MULTICAST env then [mdnsConfig (config server)] else []))
         CB_register2AsyncResponse i #
       (if UA_Client_AsyncService env client
             (RegisterServer2Request
                (fst (setupRegisterRequest (registerRequests (discovery server) ! i)
                        (config server) UA_RequestHeader_init UA_RegisteredServer_init))
                (snd (setupRegisterRequest (registerRequests (discovery server) ! i)
                        (config server) UA_RequestHeader_init UA_RegisteredServer_init))
                (if UA_ENABLE_DISCOVERY_MULTICAST env then [mdnsConfig (config server)] else []))
           = UA_STATUSCODE_GOOD
        then []
        else [Client_disconnectSecureChannelAsync
                (ar_client (registerRequests (discovery server) ! i)),
              Log UA_LOGLEVEL_ERROR UA_LOGCATEGORY_CLIENT
                (MSG_RegisterServer2_failed_with_statuscode
                   (UA_Client_AsyncService env client
                      (RegisterServer2Request
                         (fst (setupRegisterRequest (registerRequests (discovery server) ! i)
                                 (config server) UA_RequestHeader_init UA_RegisteredServer_init))
                         (snd (setupRegisterRequest (registerRequests (discovery server) ! i)
                                 (config server) UA_RequestHeader_init UA_RegisteredServer_init))
                         (if UA_ENABLE_DISCOVERY_MULTICAST env
                          then [mdnsConfig (config server)] else []))))])"
  by (auto simp add: registerAsyncResponse_def Let_def split_beta statuscode_defs)

lemma registerAsyncResponse_discovery:
  "discovery (registerAsyncResponse env server client i serviceResult) = discovery server"
  by (simp add: registerAsyncResponse_def Let_def split_beta)

lemma registerAsyncResponse_events_prefix:
  "take (length (events server)) (events (registerAsyncResponse env server client i serviceResult))
     = events server"
  by (simp add: registerAsyncResponse_def Let_def split_beta)

lemma registerAsyncResponse_no_retry:
  "Client_AsyncService c (RegisterServerRequest rh rs) cb j \<notin>
     set (drop (length (events server))
            (events (registerAsyncResponse env server client i serviceResult)))"
  by (simp add: registerAsyncResponse_def Let_def split_beta)

text \<open>
  Claim C3. The handler of a RegisterServer response, \<^verbatim>\<open>registerAsyncResponse\<close>: on
  \<open>GOOD\<close> it calls \<^verbatim>\<open>UA_Client_disconnectSecureChannelAsync\<close> on the slot's client
  and logs the success; on \<open>BADNOTIMPLEMENTED\<close> or \<open>BADSERVICEUNSUPPORTED\<close> it issues
  RegisterServer2 asynchronously with \<^verbatim>\<open>register2AsyncResponse\<close> as handler, logging
  nothing and disconnecting only if that call itself is refused; on any other result it
  disconnects and logs a warning. The handler of the RegisterServer2 response logs the
  success or the failure and disconnects in both cases. Neither handler changes the
  manager, issues RegisterServer again, and the second issues no request at all.
\<close>

theorem register_responses:
  "(serviceResult = UA_STATUSCODE_GOOD \<longrightarrow>
      registerAsyncResponse env server client i serviceResult =
        server\<lparr>events := events server @
          [Client_disconnectSecureChannelAsync
             (ar_client (registerRequests (discovery server) ! i)),
           Log UA_LOGLEVEL_INFO UA_LOGCATEGORY_SERVER MSG_RegisterServer_succeeded]\<rparr>) \<and>
   (serviceResult = UA_STATUSCODE_BADNOTIMPLEMENTED \<or>
    serviceResult = UA_STATUSCODE_BADSERVICEUNSUPPORTED \<longrightarrow>
      (let ar = registerRequests (discovery server) ! i;
           request = RegisterServer2Request
             (fst (setupRegisterRequest ar (config server)
                     UA_RequestHeader_init UA_RegisteredServer_init))
             (snd (setupRegisterRequest ar (config server)
                     UA_RequestHeader_init UA_RegisteredServer_init))
             (if UA_ENABLE_DISCOVERY_MULTICAST env then [mdnsConfig (config server)] else []);
           res = UA_Client_AsyncService env client request
       in events (registerAsyncResponse env server client i serviceResult) =
            events server @
              Client_AsyncService client request CB_register2AsyncResponse i #
              (if res = UA_STATUSCODE_GOOD then []
               else [Client_disconnectSecureChannelAsync (ar_client ar),
                     Log UA_LOGLEVEL_ERROR UA_LOGCATEGORY_CLIENT
                       (MSG_RegisterServer2_failed_with_statuscode res)]))) \<and>
   (serviceResult \<noteq> UA_STATUSCODE_GOOD \<and>
    serviceResult \<noteq> UA_STATUSCODE_BADNOTIMPLEMENTED \<and>
    serviceResult \<noteq> UA_STATUSCODE_BADSERVICEUNSUPPORTED \<longrightarrow>
      registerAsyncResponse env server client i serviceResult =
        server\<lparr>events := events server @
          [Client_disconnectSecureChannelAsync
             (ar_client (registerRequests (discovery server) ! i)),
           Log UA_LOGLEVEL_WARNING UA_LOGCATEGORY_SERVER
             (MSG_RegisterServer_failed_with_error serviceResult)]\<rparr>) \<and>
   register2AsyncResponse server client i serviceResult =
     server\<lparr>events := events server @
       [if serviceResult = UA_STATUSCODE_GOOD
        then Log UA_LOGLEVEL_INFO UA_LOGCATEGORY_SERVER MSG_RegisterServer_succeeded
        else Log UA_LOGLEVEL_WARNING UA_LOGCATEGORY_SERVER
               (MSG_RegisterServer_failed_with_statuscode serviceResult),
        Client_disconnectSecureChannelAsync
          (ar_client (registerRequests (discovery server) ! i))]\<rparr> \<and>
   discovery (registerAsyncResponse env server client i serviceResult) = discovery server \<and>
   take (length (events server))
     (events (registerAsyncResponse env server client i serviceResult)) = events server \<and>
   Client_AsyncService c (RegisterServerRequest rh rs) cb j \<notin>
     set (drop (length (events server))
            (events (registerAsyncResponse env server client i serviceResult)))"
proof (intro conjI impI)
  assume "serviceResult = UA_STATUSCODE_BADNOTIMPLEMENTED \<or>
    serviceResult = UA_STATUSCODE_BADSERVICEUNSUPPORTED"
  then show "let ar = registerRequests (discovery server) ! i;
           request = RegisterServer2Request
             (fst (setupRegisterRequest ar (config server)
                     UA_RequestHeader_init UA_RegisteredServer_init))
             (snd (setupRegisterRequest ar (config server)
                     UA_RequestHeader_init UA_RegisteredServer_init))
             (if UA_ENABLE_DISCOVERY_MULTICAST env then [mdnsConfig (config server)] else []);
           res = UA_Client_AsyncService env client request
       in events (registerAsyncResponse env server client i serviceResult) =
            events server @
              Client_AsyncService client request CB_register2AsyncResponse i #
              (if res = UA_STATUSCODE_GOOD then []
               else [Client_disconnectSecureChannelAsync (ar_client ar),
                     Log UA_LOGLEVEL_ERROR UA_LOGCATEGORY_CLIENT
                       (MSG_RegisterServer2_failed_with_statuscode res)])"
    unfolding Let_def by (rule registerAsyncResponse_fallback)
qed (simp_all add: registerAsyncResponse_good registerAsyncResponse_other
      registerAsyncResponse_discovery registerAsyncResponse_events_prefix
      registerAsyncResponse_no_retry register2AsyncResponse_def)

theorem register_responses_witness:
  "events (registerAsyncResponse example_env example_server 11 1 UA_STATUSCODE_GOOD) =
     [Client_disconnectSecureChannelAsync (Some 11),
      Log UA_LOGLEVEL_INFO UA_LOGCATEGORY_SERVER MSG_RegisterServer_succeeded] \<and>
   events (registerAsyncResponse example_env example_server 11 1
             UA_STATUSCODE_BADSERVICEUNSUPPORTED) =
     [Client_AsyncService 11
        (RegisterServer2Request
           \<lparr>rh_requestHandle = 0, rh_timeoutHint = 10000\<rparr>
           \<lparr>rs_serverUri = ''urn:srv'', rs_productUri = ''urn:prod'',
            rs_serverNames = [(''en'', ''srv'')],
            rs_serverType = UA_APPLICATIONTYPE_SERVER, rs_gatewayServerUri = [],
            rs_discoveryUrls = [''opc.tcp://a:4840'', ''opc.tcp://b:4840''],
            rs_semaphoreFilePath = ''/tmp/a.sem'', rs_isOnline = True\<rparr>
           [(''srv'', [''LDS''])])
        CB_register2AsyncResponse 1] \<and>
   events (registerAsyncResponse example_env example_server 11 1
             UA_STATUSCODE_BADOUTOFMEMORY) =
     [Client_disconnectSecureChannelAsync (Some 11),
      Log UA_LOGLEVEL_WARNING UA_LOGCATEGORY_SERVER
        (MSG_RegisterServer_failed_with_error UA_STATUSCODE_BADOUTOFMEMORY)]"
  using register_responses [where env = example_env and server = example_server
          and client = 11 and i = 1 and serviceResult = UA_STATUSCODE_GOOD]
        register_responses [where env = example_env and server = example_server
          and client = 11 and i = 1 and serviceResult = UA_STATUSCODE_BADSERVICEUNSUPPORTED]
        register_responses [where env = example_env and server = example_server
          and client = 11 and i = 1 and serviceResult = UA_STATUSCODE_BADOUTOFMEMORY]
  by (simp add: example_defs statuscode_defs setupRegisterRequest_def
      UA_RequestHeader_init_def UA_RegisteredServer_init_def)

subsection \<open>The request payload\<close>

lemma discoveryClientStateCallback_request:
  "connectStatus = UA_STATUSCODE_GOOD \<Longrightarrow> channelState = UA_SECURECHANNELSTATE_OPEN \<Longrightarrow>
   UA_Client_securityMode env client = UA_MESSAGESECURITYMODE_SIGNANDENCRYPT \<Longrightarrow>
   events (discoveryClientStateCallback env server client i channelState sessionState
             connectStatus) ! length (events server) =
     Client_AsyncService client
       (RegisterServerRequest
          (fst (setupRegisterRequest (registerRequests (discovery server) ! i) (config server)
                  UA_RequestHeader_init UA_RegisteredServer_init))
          (snd (setupRegisterRequest (registerRequests (discovery server) ! i) (config server)
                  UA_RequestHeader_init UA_RegisteredServer_init)))
       CB_registerAsyncResponse i"
  by (simp add: discoveryClientStateCallback_def Let_def split_beta nth_append)

lemma setupRegisterRequest_eq:
  "setupRegisterRequest ar sc rh rs =
     (rh\<lparr>rh_timeoutHint := 10000\<rparr>,
      \<lparr>rs_serverUri = applicationUri (applicationDescription sc),
       rs_productUri = productUri (applicationDescription sc),
       rs_serverNames = [applicationName (applicationDescription sc)],
       rs_serverType = applicationType (applicationDescription sc),
       rs_gatewayServerUri = gatewayServerUri (applicationDescription sc),
       rs_discoveryUrls = discoveryUrls (applicationDescription sc),
       rs_semaphoreFilePath = ar_semaphoreFilePath ar,
       rs_isOnline = (\<not> ar_unregister ar)\<rparr>)"
  by (simp add: setupRegisterRequest_def)

text \<open>
  Claim C9. \<^verbatim>\<open>setupRegisterRequest\<close> sets the header's \<open>timeoutHint\<close> to 10000 and
  every member of the \<^verbatim>\<open>RegisteredServer\<close> body: \<open>isOnline\<close> is the negation of the
  slot's \<open>unregister\<close>, the server URI, product URI, server type and gateway server URI
  are those of the server's application description, the semaphore file path is the
  slot's, the server names are the one application name, and the discovery URLs are the
  whole list of the application description. The RegisterServer request issued by the
  state callback and the RegisterServer2 request issued by the fallback both carry this
  header and body.
\<close>

theorem setupRegisterRequest_payload:
  "setupRegisterRequest ar sc rh rs =
     (rh\<lparr>rh_timeoutHint := 10000\<rparr>,
      \<lparr>rs_serverUri = applicationUri (applicationDescription sc),
       rs_productUri = productUri (applicationDescription sc),
       rs_serverNames = [applicationName (applicationDescription sc)],
       rs_serverType = applicationType (applicationDescription sc),
       rs_gatewayServerUri = gatewayServerUri (applicationDescription sc),
       rs_discoveryUrls = discoveryUrls (applicationDescription sc),
       rs_semaphoreFilePath = ar_semaphoreFilePath ar,
       rs_isOnline = (\<not> ar_unregister ar)\<rparr>) \<and>
   (connectStatus = UA_STATUSCODE_GOOD \<and> channelState = UA_SECURECHANNELSTATE_OPEN \<and>
    UA_Client_securityMode env client = UA_MESSAGESECURITYMODE_SIGNANDENCRYPT \<longrightarrow>
      events (discoveryClientStateCallback env server client i channelState sessionState
                connectStatus) ! length (events server) =
        Client_AsyncService client
          (RegisterServerRequest
             \<lparr>rh_requestHandle = 0, rh_timeoutHint = 10000\<rparr>
             \<lparr>rs_serverUri = applicationUri (applicationDescription (config server)),
              rs_productUri = productUri (applicationDescription (config server)),
              rs_serverNames = [applicationName (applicationDescription (config server))],
              rs_serverType = applicationType (applicationDescription (config server)),
              rs_gatewayServerUri = gatewayServerUri (applicationDescription (config server)),
              rs_discoveryUrls = discoveryUrls (applicationDescription (config server)),
              rs_semaphoreFilePath =
                ar_semaphoreFilePath (registerRequests (discovery server) ! i),
              rs_isOnline = (\<not> ar_unregister (registerRequests (discovery server) ! i))\<rparr>)
          CB_registerAsyncResponse i) \<and>
   (serviceResult = UA_STATUSCODE_BADNOTIMPLEMENTED \<or>
    serviceResult = UA_STATUSCODE_BADSERVICEUNSUPPORTED \<longrightarrow>
      events (registerAsyncResponse env server client i serviceResult) ! length (events server) =
        Client_AsyncService client
          (RegisterServer2Request
             \<lparr>rh_requestHandle = 0, rh_timeoutHint = 10000\<rparr>
             \<lparr>rs_serverUri = applicationUri (applicationDescription (config server)),
              rs_productUri = productUri (applicationDescription (config server)),
              rs_serverNames = [applicationName (applicationDescription (config server))],
              rs_serverType = applicationType (applicationDescription (config server)),
              rs_gatewayServerUri = gatewayServerUri (applicationDescription (config server)),
              rs_discoveryUrls = discoveryUrls (applicationDescription (config server)),
              rs_semaphoreFilePath =
                ar_semaphoreFilePath (registerRequests (discovery server) ! i),
              rs_isOnline = (\<not> ar_unregister (registerRequests (discovery server) ! i))\<rparr>
             (if UA_ENABLE_DISCOVERY_MULTICAST env then [mdnsConfig (config server)] else []))
          CB_register2AsyncResponse i)"
proof (intro conjI impI)
  show "setupRegisterRequest ar sc rh rs =
     (rh\<lparr>rh_timeoutHint := 10000\<rparr>,
      \<lparr>rs_serverUri = applicationUri (applicationDescription sc),
       rs_productUri = productUri (applicationDescription sc),
       rs_serverNames = [applicationName (applicationDescription sc)],
       rs_serverType = applicationType (applicationDescription sc),
       rs_gatewayServerUri = gatewayServerUri (applicationDescription sc),
       rs_discoveryUrls = discoveryUrls (applicationDescription sc),
       rs_semaphoreFilePath = ar_semaphoreFilePath ar,
       rs_isOnline = (\<not> ar_unregister ar)\<rparr>)"
    by (rule setupRegisterRequest_eq)
next
  assume "connectStatus = UA_STATUSCODE_GOOD \<and> channelState = UA_SECURECHANNELSTATE_OPEN \<and>
    UA_Client_securityMode env client = UA_MESSAGESECURITYMODE_SIGNANDENCRYPT"
  then show "events (discoveryClientStateCallback env server client i channelState sessionState
                connectStatus) ! length (events server) =
        Client_AsyncService client
          (RegisterServerRequest
             \<lparr>rh_requestHandle = 0, rh_timeoutHint = 10000\<rparr>
             \<lparr>rs_serverUri = applicationUri (applicationDescription (config server)),
              rs_productUri = productUri (applicationDescription (config server)),
              rs_serverNames = [applicationName (applicationDescription (config server))],
              rs_serverType = applicationType (applicationDescription (config server)),
              rs_gatewayServerUri = gatewayServerUri (applicationDescription (config server)),
              rs_discoveryUrls = discoveryUrls (applicationDescription (config server)),
              rs_semaphoreFilePath =
                ar_semaphoreFilePath (registerRequests (discovery server) ! i),
              rs_isOnline = (\<not> ar_unregister (registerRequests (discovery server) ! i))\<rparr>)
          CB_registerAsyncResponse i"
    by (simp add: discoveryClientStateCallback_request setupRegisterRequest_eq
        UA_RequestHeader_init_def)
next
  assume "serviceResult = UA_STATUSCODE_BADNOTIMPLEMENTED \<or>
    serviceResult = UA_STATUSCODE_BADSERVICEUNSUPPORTED"
  then show "events (registerAsyncResponse env server client i serviceResult) ! length (events server) =
        Client_AsyncService client
          (RegisterServer2Request
             \<lparr>rh_requestHandle = 0, rh_timeoutHint = 10000\<rparr>
             \<lparr>rs_serverUri = applicationUri (applicationDescription (config server)),
              rs_productUri = productUri (applicationDescription (config server)),
              rs_serverNames = [applicationName (applicationDescription (config server))],
              rs_serverType = applicationType (applicationDescription (config server)),
              rs_gatewayServerUri = gatewayServerUri (applicationDescription (config server)),
              rs_discoveryUrls = discoveryUrls (applicationDescription (config server)),
              rs_semaphoreFilePath =
                ar_semaphoreFilePath (registerRequests (discovery server) ! i),
              rs_isOnline = (\<not> ar_unregister (registerRequests (discovery server) ! i))\<rparr>
             (if UA_ENABLE_DISCOVERY_MULTICAST env then [mdnsConfig (config server)] else []))
          CB_register2AsyncResponse i"
    by (simp add: registerAsyncResponse_fallback setupRegisterRequest_eq
        UA_RequestHeader_init_def)
qed

theorem setupRegisterRequest_payload_witness:
  "events (discoveryClientStateCallback example_env example_server 11 1
             UA_SECURECHANNELSTATE_OPEN 0 UA_STATUSCODE_GOOD) =
     [Client_AsyncService 11
        (RegisterServerRequest
           \<lparr>rh_requestHandle = 0, rh_timeoutHint = 10000\<rparr>
           \<lparr>rs_serverUri = ''urn:srv'', rs_productUri = ''urn:prod'',
            rs_serverNames = [(''en'', ''srv'')],
            rs_serverType = UA_APPLICATIONTYPE_SERVER, rs_gatewayServerUri = [],
            rs_discoveryUrls = [''opc.tcp://a:4840'', ''opc.tcp://b:4840''],
            rs_semaphoreFilePath = ''/tmp/a.sem'', rs_isOnline = True\<rparr>)
        CB_registerAsyncResponse 1] \<and>
   events (registerAsyncResponse example_env example_server 11 1
             UA_STATUSCODE_BADNOTIMPLEMENTED) ! 0 =
     Client_AsyncService 11
        (RegisterServer2Request
           \<lparr>rh_requestHandle = 0, rh_timeoutHint = 10000\<rparr>
           \<lparr>rs_serverUri = ''urn:srv'', rs_productUri = ''urn:prod'',
            rs_serverNames = [(''en'', ''srv'')],
            rs_serverType = UA_APPLICATIONTYPE_SERVER, rs_gatewayServerUri = [],
            rs_discoveryUrls = [''opc.tcp://a:4840'', ''opc.tcp://b:4840''],
            rs_semaphoreFilePath = ''/tmp/a.sem'', rs_isOnline = True\<rparr>
           [(''srv'', [''LDS''])])
        CB_register2AsyncResponse 1"
  using setupRegisterRequest_payload [where env = example_env and server = example_server
          and client = 11 and i = 1 and channelState = UA_SECURECHANNELSTATE_OPEN
          and sessionState = 0 and connectStatus = UA_STATUSCODE_GOOD
          and serviceResult = UA_STATUSCODE_BADNOTIMPLEMENTED]
  by (simp add: example_defs discoveryClientStateCallback_def setupRegisterRequest_def
      UA_RequestHeader_init_def UA_RegisteredServer_init_def statuscode_defs)

subsection \<open>Reclaiming a slot\<close>

lemma map_ar_client_update:
  "ar_client y = ar_client (xs ! i) \<Longrightarrow> map ar_client (xs[i := y]) = map ar_client xs"
  by (induction xs arbitrary: i) (auto split: nat.splits)

lemma clearAsync_clients:
  "map ar_client (registerRequests (discovery (asyncRegisterRequest_clearAsync server i))) =
     map ar_client (registerRequests (discovery server))"
  by (simp add: asyncRegisterRequest_clearAsync_def Let_def map_ar_client_update)

lemma stateCallback_clients:
  "map ar_client (registerRequests (discovery
      (discoveryClientStateCallback env server client i channelState sessionState connectStatus))) =
     map ar_client (registerRequests (discovery server))"
  by (simp add: discoveryClientStateCallback_def Let_def split_beta clearAsync_clients)

lemma stateCallback_no_delete:
  "Client_delete c \<notin> set (drop (length (events server)) (events
      (discoveryClientStateCallback env server client i channelState sessionState connectStatus)))"
  by (simp add: discoveryClientStateCallback_def Let_def split_beta
      asyncRegisterRequest_clearAsync_def)

lemma stateCallback_closed:
  "connectStatus \<noteq> UA_STATUSCODE_GOOD \<Longrightarrow> channelState = UA_SECURECHANNELSTATE_CLOSED \<Longrightarrow>
   discoveryClientStateCallback env server client i channelState sessionState connectStatus =
     server\<lparr>discovery := (discovery server)\<lparr>registerRequests :=
                (registerRequests (discovery server))
                  [i := (registerRequests (discovery server) ! i)
                     \<lparr>ar_cleanupCallback :=
                        \<lparr>cb_callback = Some CB_asyncRegisterRequest_clear,
                         cb_application = True, cb_context = Some i\<rparr>\<rparr>]\<rparr>,
            events := events server @
              (if connectStatus \<noteq> UA_STATUSCODE_BADCONNECTIONCLOSED
               then [Log UA_LOGLEVEL_ERROR UA_LOGCATEGORY_SERVER
                       (MSG_could_not_connect connectStatus)]
               else []) @
              [AddDelayedCallback i]\<rparr>"
  by (simp add: discoveryClientStateCallback_def Let_def asyncRegisterRequest_clearAsync_def)

lemma clear_eq:
  "asyncRegisterRequest_clear env server i =
     UA_DiscoveryManager_setState env
       (server\<lparr>discovery := (discovery server)\<lparr>registerRequests :=
                  (registerRequests (discovery server))[i := asyncRegisterRequest_zero]\<rparr>,
               events := events server @
                 (case ar_client (registerRequests (discovery server) ! i) of
                    None \<Rightarrow> [] | Some c \<Rightarrow> [Client_delete c])\<rparr>)
       (sc_state (discovery server))"
  by (simp add: asyncRegisterRequest_clear_def Let_def)

lemma clear_slots:
  "registerRequests (discovery (asyncRegisterRequest_clear env server i)) =
     (registerRequests (discovery server))[i := asyncRegisterRequest_zero]"
  by (simp add: asyncRegisterRequest_clear_def Let_def UA_DiscoveryManager_setState_def)

lemma clear_last_slot_stops:
  assumes "i < length (registerRequests (discovery server))"
    and "sc_state (discovery server) = UA_LIFECYCLESTATE_STOPPING"
    and "\<forall>j < length (registerRequests (discovery server)).
           j \<noteq> i \<longrightarrow> ar_client (registerRequests (discovery server) ! j) = None"
    and "\<not> (UA_ENABLE_DISCOVERY_MULTICAST env \<and>
            (mdnsRecvConnectionsSize (discovery server) \<noteq> 0 \<or>
             mdnsSendConnection (discovery server) \<noteq> 0))"
  shows "sc_state (discovery (asyncRegisterRequest_clear env server i)) = UA_LIFECYCLESTATE_STOPPED"
proof -
  have "\<forall>ar \<in> set ((registerRequests (discovery server))[i := asyncRegisterRequest_zero]).
          ar_client ar = None"
    using assms(1,3)
    by (auto simp add: in_set_conv_nth nth_list_update asyncRegisterRequest_zero_def)
  then show ?thesis
    using assms(2,4)
    by (auto simp add: asyncRegisterRequest_clear_def Let_def UA_DiscoveryManager_setState_def
        setState_target_def setState_slots_eq)
qed

lemma responses_no_delete:
  "Client_delete c \<notin> set (drop (length (events server))
      (events (registerAsyncResponse env server client i serviceResult)))"
  "Client_delete c \<notin> set (drop (length (events server))
      (events (register2AsyncResponse server client i serviceResult)))"
  by (simp_all add: registerAsyncResponse_def register2AsyncResponse_def Let_def split_beta)

text \<open>
  Claim C8. A slot is reclaimed only by the deferred \<^verbatim>\<open>asyncRegisterRequest_clear\<close>.
  When the state callback sees a failed connect status with the channel \<open>CLOSED\<close>, it
  logs the error (unless it is \<open>BADCONNECTIONCLOSED\<close>), fills the slot's
  \<open>cleanupCallback\<close> with \<^verbatim>\<open>asyncRegisterRequest_clear\<close>, the server and the slot, and
  adds it to the event loop as a delayed callback; it changes nothing else. None of the
  three callbacks of the client (state, RegisterServer response, RegisterServer2
  response) changes the client of a slot or deletes a client. When
  \<^verbatim>\<open>asyncRegisterRequest_clear\<close> runs, it deletes the slot's client if there is one,
  leaves the slot all zero (semaphore path included), and then calls
  \<^verbatim>\<open>UA_DiscoveryManager_setState\<close> with the current state; if that state is
  \<open>STOPPING\<close>, no other slot has a client and no multicast connection is live, the
  state becomes \<open>STOPPED\<close>.
\<close>

theorem slot_reclamation_deferred:
  "(connectStatus \<noteq> UA_STATUSCODE_GOOD \<and> channelState = UA_SECURECHANNELSTATE_CLOSED \<longrightarrow>
      discoveryClientStateCallback env server client i channelState sessionState connectStatus =
        server\<lparr>discovery := (discovery server)\<lparr>registerRequests :=
                   (registerRequests (discovery server))
                     [i := (registerRequests (discovery server) ! i)
                        \<lparr>ar_cleanupCallback :=
                           \<lparr>cb_callback = Some CB_asyncRegisterRequest_clear,
                            cb_application = True, cb_context = Some i\<rparr>\<rparr>]\<rparr>,
               events := events server @
                 (if connectStatus \<noteq> UA_STATUSCODE_BADCONNECTIONCLOSED
                  then [Log UA_LOGLEVEL_ERROR UA_LOGCATEGORY_SERVER
                          (MSG_could_not_connect connectStatus)]
                  else []) @
                 [AddDelayedCallback i]\<rparr>) \<and>
   map ar_client (registerRequests (discovery
      (discoveryClientStateCallback env server client i channelState sessionState connectStatus))) =
     map ar_client (registerRequests (discovery server)) \<and>
   Client_delete c \<notin> set (drop (length (events server)) (events
      (discoveryClientStateCallback env server client i channelState sessionState connectStatus))) \<and>
   discovery (registerAsyncResponse env server client i serviceResult) = discovery server \<and>
   Client_delete c \<notin> set (drop (length (events server))
      (events (registerAsyncResponse env server client i serviceResult))) \<and>
   discovery (register2AsyncResponse server client i serviceResult) = discovery server \<and>
   Client_delete c \<notin> set (drop (length (events server))
      (events (register2AsyncResponse server client i serviceResult))) \<and>
   asyncRegisterRequest_clear env server i =
     UA_DiscoveryManager_setState env
       (server\<lparr>discovery := (discovery server)\<lparr>registerRequests :=
                  (registerRequests (discovery server))[i := asyncRegisterRequest_zero]\<rparr>,
               events := events server @
                 (case ar_client (registerRequests (discovery server) ! i) of
                    None \<Rightarrow> [] | Some c \<Rightarrow> [Client_delete c])\<rparr>)
       (sc_state (discovery server)) \<and>
   (i < length (registerRequests (discovery server)) \<longrightarrow>
      registerRequests (discovery (asyncRegisterRequest_clear env server i)) ! i =
        asyncRegisterRequest_zero) \<and>
   (i < length (registerRequests (discovery server)) \<and>
    sc_state (discovery server) = UA_LIFECYCLESTATE_STOPPING \<and>
    (\<forall>j < length (registerRequests (discovery server)).
        j \<noteq> i \<longrightarrow> ar_client (registerRequests (discovery server) ! j) = None) \<and>
    \<not> (UA_ENABLE_DISCOVERY_MULTICAST env \<and>
         (mdnsRecvConnectionsSize (discovery server) \<noteq> 0 \<or>
          mdnsSendConnection (discovery server) \<noteq> 0)) \<longrightarrow>
      sc_state (discovery (asyncRegisterRequest_clear env server i)) =
        UA_LIFECYCLESTATE_STOPPED)"
proof (intro conjI impI)
  assume "connectStatus \<noteq> UA_STATUSCODE_GOOD \<and> channelState = UA_SECURECHANNELSTATE_CLOSED"
  then show "discoveryClientStateCallback env server client i channelState sessionState connectStatus =
        server\<lparr>discovery := (discovery server)\<lparr>registerRequests :=
                   (registerRequests (discovery server))
                     [i := (registerRequests (discovery server) ! i)
                        \<lparr>ar_cleanupCallback :=
                           \<lparr>cb_callback = Some CB_asyncRegisterRequest_clear,
                            cb_application = True, cb_context = Some i\<rparr>\<rparr>]\<rparr>,
               events := events server @
                 (if connectStatus \<noteq> UA_STATUSCODE_BADCONNECTIONCLOSED
                  then [Log UA_LOGLEVEL_ERROR UA_LOGCATEGORY_SERVER
                          (MSG_could_not_connect connectStatus)]
                  else []) @
                 [AddDelayedCallback i]\<rparr>"
    by (simp add: stateCallback_closed)
next
  show "map ar_client (registerRequests (discovery
      (discoveryClientStateCallback env server client i channelState sessionState connectStatus))) =
     map ar_client (registerRequests (discovery server))"
    by (rule stateCallback_clients)
next
  show "Client_delete c \<notin> set (drop (length (events server)) (events
      (discoveryClientStateCallback env server client i channelState sessionState connectStatus)))"
    by (rule stateCallback_no_delete)
next
  show "discovery (registerAsyncResponse env server client i serviceResult) = discovery server"
    by (rule registerAsyncResponse_discovery)
next
  show "Client_delete c \<notin> set (drop (length (events server))
      (events (registerAsyncResponse env server client i serviceResult)))"
    by (rule responses_no_delete)
next
  show "discovery (register2AsyncResponse server client i serviceResult) = discovery server"
    by (simp add: register2AsyncResponse_def)
next
  show "Client_delete c \<notin> set (drop (length (events server))
      (events (register2AsyncResponse server client i serviceResult)))"
    by (rule responses_no_delete)
next
  show "asyncRegisterRequest_clear env server i =
     UA_DiscoveryManager_setState env
       (server\<lparr>discovery := (discovery server)\<lparr>registerRequests :=
                  (registerRequests (discovery server))[i := asyncRegisterRequest_zero]\<rparr>,
               events := events server @
                 (case ar_client (registerRequests (discovery server) ! i) of
                    None \<Rightarrow> [] | Some c \<Rightarrow> [Client_delete c])\<rparr>)
       (sc_state (discovery server))"
    by (rule clear_eq)
next
  assume "i < length (registerRequests (discovery server))"
  then show "registerRequests (discovery (asyncRegisterRequest_clear env server i)) ! i =
        asyncRegisterRequest_zero"
    by (simp add: clear_slots)
next
  assume "i < length (registerRequests (discovery server)) \<and>
    sc_state (discovery server) = UA_LIFECYCLESTATE_STOPPING \<and>
    (\<forall>j < length (registerRequests (discovery server)).
        j \<noteq> i \<longrightarrow> ar_client (registerRequests (discovery server) ! j) = None) \<and>
    \<not> (UA_ENABLE_DISCOVERY_MULTICAST env \<and>
         (mdnsRecvConnectionsSize (discovery server) \<noteq> 0 \<or>
          mdnsSendConnection (discovery server) \<noteq> 0))"
  then show "sc_state (discovery (asyncRegisterRequest_clear env server i)) =
        UA_LIFECYCLESTATE_STOPPED"
    by (intro clear_last_slot_stops) simp_all
qed

theorem slot_reclamation_deferred_witness:
  "events (discoveryClientStateCallback example_env
             (UA_DiscoveryManager_stop example_env example_server) 11 1
             UA_SECURECHANNELSTATE_CLOSED 0 UA_STATUSCODE_BADCONNECTIONCLOSED) =
     [RemoveCallback 7, Client_disconnectSecureChannelAsync (Some 11),
      StopMulticastDiscoveryServer, NotifyState UA_LIFECYCLESTATE_STOPPING,
      AddDelayedCallback 1] \<and>
   events (asyncRegisterRequest_clear example_env
             (UA_DiscoveryManager_stop example_env example_server) 1) =
     [RemoveCallback 7, Client_disconnectSecureChannelAsync (Some 11),
      StopMulticastDiscoveryServer, NotifyState UA_LIFECYCLESTATE_STOPPING,
      Client_delete 11, NotifyState UA_LIFECYCLESTATE_STOPPED] \<and>
   sc_state (discovery (asyncRegisterRequest_clear example_env
             (UA_DiscoveryManager_stop example_env example_server) 1)) =
     UA_LIFECYCLESTATE_STOPPED \<and>
   registerRequests (discovery (asyncRegisterRequest_clear example_env
             (UA_DiscoveryManager_stop example_env example_server) 1)) =
     [asyncRegisterRequest_zero, asyncRegisterRequest_zero]"
  using slot_reclamation_deferred [where env = example_env
          and server = "UA_DiscoveryManager_stop example_env example_server"
          and client = 11 and i = 1 and channelState = UA_SECURECHANNELSTATE_CLOSED
          and sessionState = 0 and connectStatus = UA_STATUSCODE_BADCONNECTIONCLOSED]
  by (simp add: example_defs statuscode_defs UA_DiscoveryManager_stop_def
      UA_DiscoveryManager_setState_def setState_target_def less_Suc_eq)

subsection \<open>Registering: the status, the configuration and the slot\<close>

lemma register_findSlot_None:
  "(register_findSlot ars k = None) = (\<forall>ar \<in> set ars. ar_client ar \<noteq> None)"
  by (induction ars arbitrary: k) auto

lemma register_findSlot_Some:
  "register_findSlot ars k = Some i \<Longrightarrow>
   k \<le> i \<and> i - k < length ars \<and> ar_client (ars ! (i - k)) = None \<and>
   (\<forall>j < i - k. ar_client (ars ! j) \<noteq> None)"
proof (induction ars arbitrary: k)
  case Nil
  then show ?case by simp
next
  case (Cons ar ars)
  show ?case
  proof (cases "ar_client ar = None")
    case True
    with Cons.prems show ?thesis by simp
  next
    case False
    with Cons.prems have "register_findSlot ars (Suc k) = Some i" by simp
    from Cons.IH [OF this] have ih: "Suc k \<le> i" "i - Suc k < length ars"
      "ar_client (ars ! (i - Suc k)) = None" "\<forall>j < i - Suc k. ar_client (ars ! j) \<noteq> None"
      by simp_all
    from ih(1) have eq: "i - k = Suc (i - Suc k)" by simp
    show ?thesis
      using ih False unfolding eq by (auto simp add: less_Suc_eq_0_disj)
  qed
qed

lemma register_early:
  "\<not> getServerComponentByName_discovery env \<or>
   sc_state (discovery server) \<noteq> UA_LIFECYCLESTATE_STARTED \<or>
   register_findSlot (registerRequests (discovery server)) 0 = None \<Longrightarrow>
   fst (UA_Server_register env server cc unregister url sem) = UA_STATUSCODE_BADINTERNALERROR \<and>
   discovery (fst (snd (UA_Server_register env server cc unregister url sem))) = discovery server \<and>
   snd (snd (UA_Server_register env server cc unregister url sem)) = UA_ClientConfig_clear env cc"
  by (auto simp add: UA_Server_register_def Let_def)

lemma register_no_client:
  assumes "getServerComponentByName_discovery env"
    and "sc_state (discovery server) = UA_LIFECYCLESTATE_STARTED"
    and "register_findSlot (registerRequests (discovery server)) 0 = Some i"
    and "UA_Client_newWithConfig env (register_adoptConfig env (config server) i url cc) = None"
  shows "fst (UA_Server_register env server cc unregister url sem) = UA_STATUSCODE_BADOUTOFMEMORY \<and>
   discovery (fst (snd (UA_Server_register env server cc unregister url sem))) = discovery server \<and>
   snd (snd (UA_Server_register env server cc unregister url sem)) =
     UA_ClientConfig_clear env (register_adoptConfig env (config server) i url cc)"
proof -
  from register_findSlot_Some [OF assms(3)]
  have free: "ar_client (registerRequests (discovery server) ! i) = None" by simp
  have same: "(registerRequests (discovery server))
      [i := (registerRequests (discovery server) ! i)\<lparr>ar_client := None\<rparr>] =
      registerRequests (discovery server)"
    using free by (metis asyncRegisterRequest.surjective asyncRegisterRequest.update_convs(4)
        list_update_id)
  show ?thesis
    using assms by (simp add: UA_Server_register_def Let_def same)
qed

lemma register_client:
  assumes "getServerComponentByName_discovery env"
    and "sc_state (discovery server) = UA_LIFECYCLESTATE_STARTED"
    and "register_findSlot (registerRequests (discovery server)) 0 = Some i"
    and "UA_Client_newWithConfig env (register_adoptConfig env (config server) i url cc) = Some c"
  shows "fst (UA_Server_register env server cc unregister url sem) = UA_Client_connect env c \<and>
   registerRequests (discovery (fst (snd (UA_Server_register env server cc unregister url sem)))) =
     (registerRequests (discovery server))
       [i := (registerRequests (discovery server) ! i)
          \<lparr>ar_client := Some c, ar_server := True, ar_dm := True,
           ar_unregister := unregister, ar_semaphoreFilePath := UA_String_copy env sem\<rparr>] \<and>
   snd (snd (UA_Server_register env server cc unregister url sem)) = UA_ClientConfig_zero"
  using assms by (simp add: UA_Server_register_def Let_def)

lemma register_returns:
  "fst (UA_Server_register env server cc unregister url sem) =
     (if \<not> getServerComponentByName_discovery env \<or>
         sc_state (discovery server) \<noteq> UA_LIFECYCLESTATE_STARTED
      then UA_STATUSCODE_BADINTERNALERROR
      else case register_findSlot (registerRequests (discovery server)) 0 of
             None \<Rightarrow> UA_STATUSCODE_BADINTERNALERROR
           | Some i \<Rightarrow>
               (case UA_Client_newWithConfig env
                       (register_adoptConfig env (config server) i url cc) of
                  None \<Rightarrow> UA_STATUSCODE_BADOUTOFMEMORY
                | Some c \<Rightarrow> UA_Client_connect env c))"
  by (simp add: UA_Server_register_def Let_def split: option.splits)

text \<open>
  Claim C4, amended. \<^verbatim>\<open>UA_Server_registerDiscovery\<close> and
  \<^verbatim>\<open>UA_Server_deregisterDiscovery\<close> return \<open>BADINTERNALERROR\<close> when the discovery
  manager is not found, is not \<open>STARTED\<close> or has no free slot, \<open>BADOUTOFMEMORY\<close>
  when the client cannot be instantiated, and otherwise the status that the asynchronous
  connect of the new client returns, whatever it is. So the status is one of \<open>GOOD\<close>,
  \<open>BADINTERNALERROR\<close> and \<open>BADOUTOFMEMORY\<close> if the connect returns only these.
\<close>

theorem register_status:
  "fst (UA_Server_registerDiscovery env server cc url sem) =
     (if \<not> getServerComponentByName_discovery env \<or>
         sc_state (discovery server) \<noteq> UA_LIFECYCLESTATE_STARTED
      then UA_STATUSCODE_BADINTERNALERROR
      else case register_findSlot (registerRequests (discovery server)) 0 of
             None \<Rightarrow> UA_STATUSCODE_BADINTERNALERROR
           | Some i \<Rightarrow>
               (case UA_Client_newWithConfig env
                       (register_adoptConfig env (config server) i url cc) of
                  None \<Rightarrow> UA_STATUSCODE_BADOUTOFMEMORY
                | Some c \<Rightarrow> UA_Client_connect env c)) \<and>
   fst (UA_Server_deregisterDiscovery env server cc url) =
     fst (UA_Server_registerDiscovery env server cc url sem) \<and>
   ((\<forall>c. UA_Client_connect env c = UA_STATUSCODE_GOOD \<or>
          UA_Client_connect env c = UA_STATUSCODE_BADINTERNALERROR \<or>
          UA_Client_connect env c = UA_STATUSCODE_BADOUTOFMEMORY) \<longrightarrow>
      fst (UA_Server_registerDiscovery env server cc url sem) = UA_STATUSCODE_GOOD \<or>
      fst (UA_Server_registerDiscovery env server cc url sem) = UA_STATUSCODE_BADINTERNALERROR \<or>
      fst (UA_Server_registerDiscovery env server cc url sem) = UA_STATUSCODE_BADOUTOFMEMORY)"
proof -
  have reg: "fst (UA_Server_registerDiscovery env server cc url sem) =
     (if \<not> getServerComponentByName_discovery env \<or>
         sc_state (discovery server) \<noteq> UA_LIFECYCLESTATE_STARTED
      then UA_STATUSCODE_BADINTERNALERROR
      else case register_findSlot (registerRequests (discovery server)) 0 of
             None \<Rightarrow> UA_STATUSCODE_BADINTERNALERROR
           | Some i \<Rightarrow>
               (case UA_Client_newWithConfig env
                       (register_adoptConfig env (config server) i url cc) of
                  None \<Rightarrow> UA_STATUSCODE_BADOUTOFMEMORY
                | Some c \<Rightarrow> UA_Client_connect env c))"
    by (simp add: UA_Server_registerDiscovery_def register_returns cong: option.case_cong)
  have dereg: "fst (UA_Server_deregisterDiscovery env server cc url) =
     fst (UA_Server_registerDiscovery env server cc url sem)"
    by (simp add: UA_Server_registerDiscovery_def UA_Server_deregisterDiscovery_def
        register_returns cong: option.case_cong)
  have three: "fst (UA_Server_registerDiscovery env server cc url sem) = UA_STATUSCODE_GOOD \<or>
      fst (UA_Server_registerDiscovery env server cc url sem) = UA_STATUSCODE_BADINTERNALERROR \<or>
      fst (UA_Server_registerDiscovery env server cc url sem) = UA_STATUSCODE_BADOUTOFMEMORY"
    if "\<forall>c. UA_Client_connect env c = UA_STATUSCODE_GOOD \<or>
          UA_Client_connect env c = UA_STATUSCODE_BADINTERNALERROR \<or>
          UA_Client_connect env c = UA_STATUSCODE_BADOUTOFMEMORY"
    unfolding reg using that by (simp split: option.splits)
  from reg dereg three show ?thesis by blast
qed

theorem register_status_witness:
  "fst (UA_Server_registerDiscovery (example_env\<lparr>UA_Client_connect := \<lambda>c. UA_STATUSCODE_GOOD\<rparr>)
          example_server UA_ClientConfig_zero ''opc.tcp://disc:4840'' ''/tmp/a.sem'') =
     UA_STATUSCODE_GOOD \<and>
   fst (UA_Server_deregisterDiscovery (example_env\<lparr>UA_Client_newWithConfig := \<lambda>cc. None\<rparr>)
          example_server UA_ClientConfig_zero ''opc.tcp://disc:4840'') =
     UA_STATUSCODE_BADOUTOFMEMORY"
  using register_status [where env = "example_env\<lparr>UA_Client_connect := \<lambda>c. UA_STATUSCODE_GOOD\<rparr>"
          and server = example_server and cc = UA_ClientConfig_zero
          and url = "''opc.tcp://disc:4840''" and sem = "''/tmp/a.sem''"]
        register_status [where env = "example_env\<lparr>UA_Client_newWithConfig := \<lambda>cc. None\<rparr>"
          and server = example_server and cc = UA_ClientConfig_zero
          and url = "''opc.tcp://disc:4840''" and sem = "[]"]
  by (simp add: example_defs)

theorem register_status_counterexample:
  "fst (UA_Server_registerDiscovery example_env example_server UA_ClientConfig_zero
          ''opc.tcp://disc:4840'' []) = UA_STATUSCODE_BADCONNECTIONREJECTED \<and>
   fst (UA_Server_registerDiscovery example_env example_server UA_ClientConfig_zero
          ''opc.tcp://disc:4840'' []) \<notin>
     {UA_STATUSCODE_GOOD, UA_STATUSCODE_BADINTERNALERROR, UA_STATUSCODE_BADOUTOFMEMORY}"
  by (simp add: UA_Server_registerDiscovery_def UA_Server_register_def example_defs
      statuscode_defs register_adoptConfig_def)

text \<open>
  Claim C6, amended. A call of \<^verbatim>\<open>UA_Server_registerDiscovery\<close> or
  \<^verbatim>\<open>UA_Server_deregisterDiscovery\<close> that returns before a client is instantiated (the
  manager is not found, is not \<open>STARTED\<close>, has no free slot, or the client cannot be
  allocated) applies \<^verbatim>\<open>UA_ClientConfig_clear\<close> to the caller's configuration and leaves
  the manager, and so every slot, as it was. A call that instantiates the client leaves
  the caller's configuration all zero and the client in the first free slot, with the
  slot's back pointers, \<open>unregister\<close> flag and semaphore path set, and returns the status
  of the asynchronous connect, good or bad.
\<close>

theorem register_config_and_slot:
  "(\<not> getServerComponentByName_discovery env \<or>
    sc_state (discovery server) \<noteq> UA_LIFECYCLESTATE_STARTED \<or>
    (\<forall>ar \<in> set (registerRequests (discovery server)). ar_client ar \<noteq> None) \<longrightarrow>
      fst (UA_Server_registerDiscovery env server cc url sem) = UA_STATUSCODE_BADINTERNALERROR \<and>
      snd (snd (UA_Server_registerDiscovery env server cc url sem)) =
        UA_ClientConfig_clear env cc \<and>
      discovery (fst (snd (UA_Server_registerDiscovery env server cc url sem))) =
        discovery server \<and>
      fst (UA_Server_deregisterDiscovery env server cc url) = UA_STATUSCODE_BADINTERNALERROR \<and>
      snd (snd (UA_Server_deregisterDiscovery env server cc url)) =
        UA_ClientConfig_clear env cc \<and>
      discovery (fst (snd (UA_Server_deregisterDiscovery env server cc url))) =
        discovery server) \<and>
   (getServerComponentByName_discovery env \<and>
    sc_state (discovery server) = UA_LIFECYCLESTATE_STARTED \<and>
    register_findSlot (registerRequests (discovery server)) 0 = Some i \<longrightarrow>
      i < length (registerRequests (discovery server)) \<and>
      ar_client (registerRequests (discovery server) ! i) = None \<and>
      (\<forall>j < i. ar_client (registerRequests (discovery server) ! j) \<noteq> None) \<and>
      (UA_Client_newWithConfig env (register_adoptConfig env (config server) i url cc) = None \<longrightarrow>
         fst (UA_Server_registerDiscovery env server cc url sem) = UA_STATUSCODE_BADOUTOFMEMORY \<and>
         snd (snd (UA_Server_registerDiscovery env server cc url sem)) =
           UA_ClientConfig_clear env (register_adoptConfig env (config server) i url cc) \<and>
         discovery (fst (snd (UA_Server_registerDiscovery env server cc url sem))) =
           discovery server \<and>
         fst (UA_Server_deregisterDiscovery env server cc url) = UA_STATUSCODE_BADOUTOFMEMORY \<and>
         snd (snd (UA_Server_deregisterDiscovery env server cc url)) =
           UA_ClientConfig_clear env (register_adoptConfig env (config server) i url cc) \<and>
         discovery (fst (snd (UA_Server_deregisterDiscovery env server cc url))) =
           discovery server) \<and>
      (UA_Client_newWithConfig env (register_adoptConfig env (config server) i url cc) = Some c \<longrightarrow>
         fst (UA_Server_registerDiscovery env server cc url sem) = UA_Client_connect env c \<and>
         snd (snd (UA_Server_registerDiscovery env server cc url sem)) = UA_ClientConfig_zero \<and>
         registerRequests (discovery (fst (snd
             (UA_Server_registerDiscovery env server cc url sem)))) =
           (registerRequests (discovery server))
             [i := (registerRequests (discovery server) ! i)
                \<lparr>ar_client := Some c, ar_server := True, ar_dm := True,
                 ar_unregister := False, ar_semaphoreFilePath := UA_String_copy env sem\<rparr>] \<and>
         fst (UA_Server_deregisterDiscovery env server cc url) = UA_Client_connect env c \<and>
         snd (snd (UA_Server_deregisterDiscovery env server cc url)) = UA_ClientConfig_zero \<and>
         registerRequests (discovery (fst (snd
             (UA_Server_deregisterDiscovery env server cc url)))) =
           (registerRequests (discovery server))
             [i := (registerRequests (discovery server) ! i)
                \<lparr>ar_client := Some c, ar_server := True, ar_dm := True,
                 ar_unregister := True, ar_semaphoreFilePath := UA_String_copy env []\<rparr>]))"
proof (intro conjI impI)
  assume early: "\<not> getServerComponentByName_discovery env \<or>
    sc_state (discovery server) \<noteq> UA_LIFECYCLESTATE_STARTED \<or>
    (\<forall>ar \<in> set (registerRequests (discovery server)). ar_client ar \<noteq> None)"
  have e: "\<not> getServerComponentByName_discovery env \<or>
      sc_state (discovery (server\<lparr>events := es\<rparr>)) \<noteq> UA_LIFECYCLESTATE_STARTED \<or>
      register_findSlot (registerRequests (discovery (server\<lparr>events := es\<rparr>))) 0 = None" for es
    using early by (simp add: register_findSlot_None)
  show "fst (UA_Server_registerDiscovery env server cc url sem) = UA_STATUSCODE_BADINTERNALERROR"
    using register_early [OF e] by (simp add: UA_Server_registerDiscovery_def)
  show "snd (snd (UA_Server_registerDiscovery env server cc url sem)) =
        UA_ClientConfig_clear env cc"
    using register_early [OF e] by (simp add: UA_Server_registerDiscovery_def)
  show "discovery (fst (snd (UA_Server_registerDiscovery env server cc url sem))) =
        discovery server"
    using register_early [OF e] by (simp add: UA_Server_registerDiscovery_def)
  show "fst (UA_Server_deregisterDiscovery env server cc url) = UA_STATUSCODE_BADINTERNALERROR"
    using register_early [OF e] by (simp add: UA_Server_deregisterDiscovery_def)
  show "snd (snd (UA_Server_deregisterDiscovery env server cc url)) =
        UA_ClientConfig_clear env cc"
    using register_early [OF e] by (simp add: UA_Server_deregisterDiscovery_def)
  show "discovery (fst (snd (UA_Server_deregisterDiscovery env server cc url))) =
        discovery server"
    using register_early [OF e] by (simp add: UA_Server_deregisterDiscovery_def)
next
  assume slot: "getServerComponentByName_discovery env \<and>
    sc_state (discovery server) = UA_LIFECYCLESTATE_STARTED \<and>
    register_findSlot (registerRequests (discovery server)) 0 = Some i"
  from slot have found: "register_findSlot (registerRequests (discovery server)) 0 = Some i"
    by simp
  from register_findSlot_Some [OF found]
  show "i < length (registerRequests (discovery server))"
    and "ar_client (registerRequests (discovery server) ! i) = None"
    and "\<forall>j < i. ar_client (registerRequests (discovery server) ! j) \<noteq> None"
    by simp_all
  have pre: "getServerComponentByName_discovery env"
    "sc_state (discovery (server\<lparr>events := es\<rparr>)) = UA_LIFECYCLESTATE_STARTED"
    "register_findSlot (registerRequests (discovery (server\<lparr>events := es\<rparr>))) 0 = Some i"
    for es
    using slot by simp_all
  {
    assume none: "UA_Client_newWithConfig env
      (register_adoptConfig env (config server) i url cc) = None"
    then have n: "UA_Client_newWithConfig env
      (register_adoptConfig env (config (server\<lparr>events := es\<rparr>)) i url cc) = None" for es
      by simp
    show "fst (UA_Server_registerDiscovery env server cc url sem) = UA_STATUSCODE_BADOUTOFMEMORY"
      using register_no_client [OF pre n] by (simp add: UA_Server_registerDiscovery_def)
    show "snd (snd (UA_Server_registerDiscovery env server cc url sem)) =
           UA_ClientConfig_clear env (register_adoptConfig env (config server) i url cc)"
      using register_no_client [OF pre n] by (simp add: UA_Server_registerDiscovery_def)
    show "discovery (fst (snd (UA_Server_registerDiscovery env server cc url sem))) =
           discovery server"
      using register_no_client [OF pre n] by (simp add: UA_Server_registerDiscovery_def)
    show "fst (UA_Server_deregisterDiscovery env server cc url) = UA_STATUSCODE_BADOUTOFMEMORY"
      using register_no_client [OF pre n] by (simp add: UA_Server_deregisterDiscovery_def)
    show "snd (snd (UA_Server_deregisterDiscovery env server cc url)) =
           UA_ClientConfig_clear env (register_adoptConfig env (config server) i url cc)"
      using register_no_client [OF pre n] by (simp add: UA_Server_deregisterDiscovery_def)
    show "discovery (fst (snd (UA_Server_deregisterDiscovery env server cc url))) =
           discovery server"
      using register_no_client [OF pre n] by (simp add: UA_Server_deregisterDiscovery_def)
  }
  {
    assume some: "UA_Client_newWithConfig env
      (register_adoptConfig env (config server) i url cc) = Some c"
    then have s: "UA_Client_newWithConfig env
      (register_adoptConfig env (config (server\<lparr>events := es\<rparr>)) i url cc) = Some c" for es
      by simp
    show "fst (UA_Server_registerDiscovery env server cc url sem) = UA_Client_connect env c"
      using register_client [OF pre s] by (simp add: UA_Server_registerDiscovery_def)
    show "snd (snd (UA_Server_registerDiscovery env server cc url sem)) = UA_ClientConfig_zero"
      using register_client [OF pre s] by (simp add: UA_Server_registerDiscovery_def)
    show "registerRequests (discovery (fst (snd
             (UA_Server_registerDiscovery env server cc url sem)))) =
           (registerRequests (discovery server))
             [i := (registerRequests (discovery server) ! i)
                \<lparr>ar_client := Some c, ar_server := True, ar_dm := True,
                 ar_unregister := False, ar_semaphoreFilePath := UA_String_copy env sem\<rparr>]"
      using register_client [OF pre s] by (simp add: UA_Server_registerDiscovery_def)
    show "fst (UA_Server_deregisterDiscovery env server cc url) = UA_Client_connect env c"
      using register_client [OF pre s] by (simp add: UA_Server_deregisterDiscovery_def)
    show "snd (snd (UA_Server_deregisterDiscovery env server cc url)) = UA_ClientConfig_zero"
      using register_client [OF pre s] by (simp add: UA_Server_deregisterDiscovery_def)
    show "registerRequests (discovery (fst (snd
             (UA_Server_deregisterDiscovery env server cc url)))) =
           (registerRequests (discovery server))
             [i := (registerRequests (discovery server) ! i)
                \<lparr>ar_client := Some c, ar_server := True, ar_dm := True,
                 ar_unregister := True, ar_semaphoreFilePath := UA_String_copy env []\<rparr>]"
      using register_client [OF pre s] by (simp add: UA_Server_deregisterDiscovery_def)
  }
qed

theorem register_config_and_slot_witness:
  "fst (UA_Server_registerDiscovery example_env
          (example_server\<lparr>discovery := example_dm\<lparr>registerRequests :=
             [example_busy_slot, example_busy_slot]\<rparr>\<rparr>)
          (UA_ClientConfig_zero\<lparr>cc_eventLoop := Some 9\<rparr>) ''opc.tcp://disc:4840'' []) =
     UA_STATUSCODE_BADINTERNALERROR \<and>
   map ar_client (registerRequests (discovery (fst (snd
     (UA_Server_registerDiscovery example_env
          (example_server\<lparr>discovery := example_dm\<lparr>registerRequests :=
             [example_busy_slot, example_busy_slot]\<rparr>\<rparr>)
          (UA_ClientConfig_zero\<lparr>cc_eventLoop := Some 9\<rparr>) ''opc.tcp://disc:4840'' []))))) =
     [Some 11, Some 11] \<and>
   fst (UA_Server_registerDiscovery (example_env\<lparr>UA_Client_newWithConfig := \<lambda>cc. None\<rparr>)
          example_server (UA_ClientConfig_zero\<lparr>cc_eventLoop := Some 9\<rparr>)
          ''opc.tcp://disc:4840'' []) = UA_STATUSCODE_BADOUTOFMEMORY \<and>
   map ar_client (registerRequests (discovery (fst (snd
     (UA_Server_registerDiscovery (example_env\<lparr>UA_Client_newWithConfig := \<lambda>cc. None\<rparr>)
          example_server (UA_ClientConfig_zero\<lparr>cc_eventLoop := Some 9\<rparr>)
          ''opc.tcp://disc:4840'' []))))) = [None, Some 11] \<and>
   snd (snd (UA_Server_deregisterDiscovery example_env example_server
          (UA_ClientConfig_zero\<lparr>cc_eventLoop := Some 9\<rparr>) ''opc.tcp://disc:4840'')) =
     UA_ClientConfig_zero \<and>
   map ar_client (registerRequests (discovery (fst (snd
     (UA_Server_deregisterDiscovery example_env example_server
          (UA_ClientConfig_zero\<lparr>cc_eventLoop := Some 9\<rparr>) ''opc.tcp://disc:4840''))))) =
     [Some 42, Some 11]"
  using register_config_and_slot [where env = example_env
          and server = "example_server\<lparr>discovery := example_dm\<lparr>registerRequests :=
             [example_busy_slot, example_busy_slot]\<rparr>\<rparr>"
          and cc = "UA_ClientConfig_zero\<lparr>cc_eventLoop := Some 9\<rparr>"
          and url = "''opc.tcp://disc:4840''" and sem = "[]"]
        register_config_and_slot [where env = "example_env\<lparr>UA_Client_newWithConfig := \<lambda>cc. None\<rparr>"
          and server = example_server
          and cc = "UA_ClientConfig_zero\<lparr>cc_eventLoop := Some 9\<rparr>"
          and url = "''opc.tcp://disc:4840''" and sem = "[]" and i = 0]
        register_config_and_slot [where env = example_env
          and server = example_server
          and cc = "UA_ClientConfig_zero\<lparr>cc_eventLoop := Some 9\<rparr>"
          and url = "''opc.tcp://disc:4840''" and sem = "[]" and i = 0 and c = 42]
  by (simp add: example_defs)

theorem register_config_and_slot_counterexample:
  "fst (UA_Server_registerDiscovery example_env example_server UA_ClientConfig_zero
          ''opc.tcp://disc:4840'' []) \<noteq> UA_STATUSCODE_GOOD \<and>
   ar_client (registerRequests (discovery example_server) ! 0) = None \<and>
   ar_client (registerRequests (discovery (fst (snd
     (UA_Server_registerDiscovery example_env example_server UA_ClientConfig_zero
        ''opc.tcp://disc:4840'' [])))) ! 0) = Some 42"
  by (simp add: UA_Server_registerDiscovery_def UA_Server_register_def example_defs
      statuscode_defs register_adoptConfig_def)

end
